theory Spec2Isabelle
  imports Main "HOL-Library.AList"
begin

section \<open>Errors of the repository package\<close>

text \<open>
  The handlers compare the error returned by the service with the sentinel errors of the
  repository package by \<^verbatim>\<open>errors.Is\<close>. An error value is modelled by the sentinels found
  along its unwrap chain and by the text that its \<^verbatim>\<open>Error()\<close> method returns. A nil error
  is the absence of such a value (\<open>Inr\<close> in a result, \<open>None\<close> for a bare error).
\<close>

datatype sentinel =
    ErrPostIDExist
  | ErrAnalyticDependencyNotFound
  | ErrAnalyticNotFound
  | ErrPostNotFound
  | ErrCategoryExists
  | ErrCategoryNotFound

record err =
  chain :: "sentinel list"
  Error :: string

definition errors_Is :: "err \<Rightarrow> sentinel \<Rightarrow> bool" where
  "errors_Is e target = List.member (chain e) target"

section \<open>Status codes of net/http\<close>

abbreviation StatusOK :: nat where "StatusOK \<equiv> 200"
abbreviation StatusCreated :: nat where "StatusCreated \<equiv> 201"
abbreviation StatusNoContent :: nat where "StatusNoContent \<equiv> 204"
abbreviation StatusBadRequest :: nat where "StatusBadRequest \<equiv> 400"
abbreviation StatusUnauthorized :: nat where "StatusUnauthorized \<equiv> 401"
abbreviation StatusNotFound :: nat where "StatusNotFound \<equiv> 404"
abbreviation StatusConflict :: nat where "StatusConflict \<equiv> 409"
abbreviation StatusInternalServerError :: nat where "StatusInternalServerError \<equiv> 500"

section \<open>strconv.Atoi\<close>

text \<open>
  \<^verbatim>\<open>strconv.Atoi\<close> of the Go standard library on a 64-bit platform: an optional sign, then
  decimal digits. A syntax error gives the value 0; a number out of range gives the nearest
  bound of int64. Atoi parses a short string on a fast path of its own, with the same
  results as ParseInt, which is the path modelled here. The handlers keep the value and
  drop the error.
\<close>

datatype NumError = ErrSyntax | ErrRange

definition maxUint64 :: int where "maxUint64 = 2 ^ 64 - 1"

definition digit :: "char \<Rightarrow> int option" where
  "digit c = (let n = (of_char c :: int) in if 48 \<le> n \<and> n \<le> 57 then Some (n - 48) else None)"

fun ParseUint_loop :: "int \<Rightarrow> string \<Rightarrow> int \<times> NumError option" where
  "ParseUint_loop n [] = (n, None)"
| "ParseUint_loop n (c # cs) =
     (case digit c of
        None \<Rightarrow> (0, Some ErrSyntax)
      | Some d \<Rightarrow>
          if n \<ge> maxUint64 div 10 + 1 then (maxUint64, Some ErrRange)
          else if n * 10 + d > maxUint64 then (maxUint64, Some ErrRange)
          else ParseUint_loop (n * 10 + d) cs)"

definition ParseUint :: "string \<Rightarrow> int \<times> NumError option" where
  "ParseUint s = (if s = [] then (0, Some ErrSyntax) else ParseUint_loop 0 s)"

definition ParseInt :: "string \<Rightarrow> int \<times> NumError option" where
  "ParseInt s0 =
     (if s0 = [] then (0, Some ErrSyntax)
      else
        let neg = (hd s0 = CHR ''-'');
            s = (if hd s0 = CHR ''+'' \<or> hd s0 = CHR ''-'' then tl s0 else s0);
            (un, e) = ParseUint s
        in if e = Some ErrSyntax then (0, e)
           else if \<not> neg \<and> un \<ge> 2 ^ 63 then (2 ^ 63 - 1, Some ErrRange)
           else if neg \<and> un > 2 ^ 63 then (- (2 ^ 63), Some ErrRange)
           else (if neg then - un else un, None))"

definition Atoi :: "string \<Rightarrow> int \<times> NumError option" where
  "Atoi s = ParseInt s"

section \<open>The models package\<close>

text \<open>
  Modelled from the spec: the package \<^verbatim>\<open>models\<close> (Analytic, AnalyticUpdate with its method
  IsEmpty, AnalyticWithWords, Category, PostResponse) is not among the sources. The spec
  gives an Analytic an id, the PostID of its Post and a set of numeric fields; an
  AnalyticUpdate makes every field optional, and is empty iff every optional field is unset.
  The numeric fields are kept by name; a name absent from an update is an unset field.
\<close>

record Analytic =
  ID :: int
  PostID :: int
  metrics :: "(string \<times> int) list"

record AnalyticUpdate =
  PostID_opt :: "int option"
  metrics_opt :: "(string \<times> int) list"

text \<open>
  Modelled from the spec: the method IsEmpty of AnalyticUpdate, missing from the sources
  (4.4). An update is empty iff every optional field is unset.
\<close>

definition IsEmpty :: "AnalyticUpdate \<Rightarrow> bool" where
  "IsEmpty u = (PostID_opt u = None \<and> metrics_opt u = [])"

record WordStat =
  word :: string
  mentions :: int

record AnalyticWithWords =
  stored :: Analytic
  words :: "WordStat list"

record Category =
  Title :: string

record PostResponse =
  post_id :: int
  category_title :: string
  public :: bool

section \<open>The request context and the handler's surroundings\<close>

text \<open>
  Of the gin context a handler reads the path parameters, the keys set by earlier middleware
  (values of dynamic type) and the result of binding the body, the URI or the query: the text
  of the binding error, or the bound value. addAnalytic and updateAnalytic bind the body
  into a pointer that starts as nil, so their bound value is a pointer: on the body
  \<^verbatim>\<open>null\<close> the decoder leaves it nil (\<open>None\<close>), and the validator that
  \<^verbatim>\<open>c.BindJSON\<close> runs next panics on it. addCategory binds into a struct it has
  allocated, so its bound value is the struct.
\<close>

datatype any = AnyString string | AnyInt int | AnyBool bool | AnyNil

text \<open>The type assertion \<^verbatim>\<open>v.(string)\<close> succeeds exactly on a value of dynamic type string.\<close>

fun isString :: "any \<Rightarrow> bool" where
  "isString (AnyString _) = True"
| "isString _ = False"

record 'b Context =
  Param :: "string \<Rightarrow> string"
  Keys :: "string \<rightharpoonup> any"
  BindJSON :: "string + 'b"
  BindUri :: "string + string"
  BindQuery :: "string + string"

datatype 'a body = errorResponse string | JSON 'a | NoBody

datatype 'a result = Response nat "'a body" | Panic

datatype call =
    AddAnalyticCall Analytic
  | UpdateAnalyticCall int AnalyticUpdate
  | DeleteAnalyticCall int
  | GetAnalyticWithWordsCall int string
  | GetCategoriesWithPublicPostsCall
  | GetCategoriesWithPostsCall
  | GetAllCategoriesCall
  | AddCategoryCall Category
  | UpdateCategoryCall string string
  | DeleteCategoryCall string

text \<open>
  What a handler can change: the state behind the service, the record of the service
  methods it has called, and the lines written to the operator log.
\<close>

record 's world =
  db :: 's
  calls :: "call list"
  logged :: "string list"

definition call_srv :: "call \<Rightarrow> ('s \<Rightarrow> 'r \<times> 's) \<Rightarrow> 's world \<Rightarrow> 'r \<times> 's world" where
  "call_srv c m w = (let (r, d) = m (db w) in (r, w\<lparr>db := d, calls := calls w @ [c]\<rparr>))"

definition log_Error :: "string \<Rightarrow> 's world \<Rightarrow> 's world" where
  "log_Error msg w = w\<lparr>logged := logged w @ [msg]\<rparr>"

section \<open>The handlers of the analytic routes\<close>

text \<open>
  Each handler takes the service method it calls as its first argument: the service is an
  interface whose implementation is not among the sources. A method works on the state
  behind the service and returns its result, an error on the left. A panic inside a
  handler ends it without an answer of its own.
\<close>

definition addAnalytic ::
  "(Analytic \<Rightarrow> 's \<Rightarrow> (err + Analytic) \<times> 's) \<Rightarrow> Analytic option Context \<Rightarrow> 's world
     \<Rightarrow> Analytic result \<times> 's world" where
  "addAnalytic AddAnalytic c w =
     (case BindJSON c of
        Inl e \<Rightarrow> (Response StatusBadRequest (errorResponse e), w)
      | Inr None \<Rightarrow> (Panic, w)
      | Inr (Some analytic) \<Rightarrow>
          (case call_srv (AddAnalyticCall analytic) (AddAnalytic analytic) w of
             (Inl e, w') \<Rightarrow>
               if errors_Is e ErrPostIDExist then
                 (Response StatusBadRequest (errorResponse (Error e)), w')
               else if errors_Is e ErrAnalyticDependencyNotFound then
                 (Response StatusConflict (errorResponse (Error e)), w')
               else
                 (Response StatusInternalServerError (errorResponse (Error e)),
                  log_Error (Error e) w')
           | (Inr newAnalytic, w') \<Rightarrow> (Response StatusOK (JSON newAnalytic), w')))"

definition updateAnalytic ::
  "(int \<Rightarrow> AnalyticUpdate \<Rightarrow> 's \<Rightarrow> (err + Analytic) \<times> 's)
     \<Rightarrow> AnalyticUpdate option Context \<Rightarrow> 's world \<Rightarrow> Analytic result \<times> 's world" where
  "updateAnalytic UpdateAnalytic c w =
     (let id = fst (Atoi (Param c ''id'')) in
      case BindJSON c of
        Inl e \<Rightarrow> (Response StatusBadRequest (errorResponse e), w)
      | Inr None \<Rightarrow> (Panic, w)
      | Inr (Some analytic) \<Rightarrow>
          if IsEmpty analytic then
            (Response StatusBadRequest (errorResponse ''analytic has no changes''), w)
          else
            (case call_srv (UpdateAnalyticCall id analytic) (UpdateAnalytic id analytic) w of
               (Inl e, w') \<Rightarrow>
                 if errors_Is e ErrPostIDExist then
                   (Response StatusBadRequest (errorResponse (Error e)), w')
                 else if errors_Is e ErrAnalyticNotFound then
                   (Response StatusNotFound (errorResponse (Error e)), w')
                 else if errors_Is e ErrAnalyticDependencyNotFound then
                   (Response StatusConflict (errorResponse (Error e)), w')
                 else
                   (Response StatusInternalServerError (errorResponse (Error e)),
                    log_Error (Error e) w')
             | (Inr newAnalytic, w') \<Rightarrow> (Response StatusOK (JSON newAnalytic), w')))"

definition deleteAnalytic ::
  "(int \<Rightarrow> 's \<Rightarrow> err option \<times> 's) \<Rightarrow> unit Context \<Rightarrow> 's world
     \<Rightarrow> unit result \<times> 's world" where
  "deleteAnalytic DeleteAnalytic c w =
     (let id = fst (Atoi (Param c ''id'')) in
      case call_srv (DeleteAnalyticCall id) (DeleteAnalytic id) w of
        (Some e, w') \<Rightarrow>
          if errors_Is e ErrAnalyticNotFound then
            (Response StatusNotFound (errorResponse (Error e)), w')
          else
            (Response StatusInternalServerError (errorResponse (Error e)),
             log_Error (Error e) w')
      | (None, w') \<Rightarrow> (Response StatusNoContent NoBody, w'))"

text \<open>
  The role is read from the keys of the context and asserted to be a string without the
  two-result form, so a value of another dynamic type makes the handler panic.
\<close>

definition getAnalyticWithWordsByPostID ::
  "(int \<Rightarrow> string \<Rightarrow> 's \<Rightarrow> (err + AnalyticWithWords list) \<times> 's) \<Rightarrow> unit Context
     \<Rightarrow> 's world \<Rightarrow> AnalyticWithWords list result \<times> 's world" where
  "getAnalyticWithWordsByPostID GetAnalyticWithWords c w =
     (let id = fst (Atoi (Param c ''id'')) in
      case Keys c ''role'' of
        None \<Rightarrow> (Response StatusUnauthorized (errorResponse ''not found role''), w)
      | Some (AnyString role) \<Rightarrow>
          (case call_srv (GetAnalyticWithWordsCall id role) (GetAnalyticWithWords id role) w of
             (Inl e, w') \<Rightarrow>
               if errors_Is e ErrAnalyticNotFound then
                 (Response StatusNotFound (errorResponse (Error e)), w')
               else
                 (Response StatusInternalServerError (errorResponse (Error e)),
                  log_Error (Error e) w')
           | (Inr analytics, w') \<Rightarrow> (Response StatusOK (JSON analytics), w'))
      | Some _ \<Rightarrow> (Panic, w))"

section \<open>The handlers of the category routes\<close>

definition getCategoriesWithPublicPosts ::
  "('s \<Rightarrow> (err + (string \<times> PostResponse list) list) \<times> 's) \<Rightarrow> unit Context \<Rightarrow> 's world
     \<Rightarrow> (string \<times> PostResponse list) list result \<times> 's world" where
  "getCategoriesWithPublicPosts GetCategoriesWithPublicPosts c w =
     (case call_srv GetCategoriesWithPublicPostsCall GetCategoriesWithPublicPosts w of
        (Inl e, w') \<Rightarrow>
          if errors_Is e ErrPostNotFound then
            (Response StatusNotFound (errorResponse (Error e)), w')
          else
            (Response StatusInternalServerError (errorResponse (Error e)),
             log_Error (Error e) w')
      | (Inr response, w') \<Rightarrow> (Response StatusOK (JSON response), w'))"

definition getCategoriesWithPosts ::
  "('s \<Rightarrow> (err + (string \<times> PostResponse list) list) \<times> 's) \<Rightarrow> unit Context \<Rightarrow> 's world
     \<Rightarrow> (string \<times> PostResponse list) list result \<times> 's world" where
  "getCategoriesWithPosts GetCategoriesWithPosts c w =
     (case call_srv GetCategoriesWithPostsCall GetCategoriesWithPosts w of
        (Inl e, w') \<Rightarrow>
          if errors_Is e ErrPostNotFound then
            (Response StatusNotFound (errorResponse (Error e)), w')
          else
            (Response StatusInternalServerError (errorResponse (Error e)),
             log_Error (Error e) w')
      | (Inr response, w') \<Rightarrow> (Response StatusOK (JSON response), w'))"

definition getAllCategories ::
  "('s \<Rightarrow> (err + Category list) \<times> 's) \<Rightarrow> unit Context \<Rightarrow> 's world
     \<Rightarrow> Category list result \<times> 's world" where
  "getAllCategories GetAllCategories c w =
     (case call_srv GetAllCategoriesCall GetAllCategories w of
        (Inl e, w') \<Rightarrow>
          if errors_Is e ErrCategoryNotFound then
            (Response StatusNotFound (errorResponse (Error e)), w')
          else
            (Response StatusInternalServerError (errorResponse (Error e)),
             log_Error (Error e) w')
      | (Inr response, w') \<Rightarrow> (Response StatusOK (JSON response), w'))"

definition addCategory ::
  "(Category \<Rightarrow> 's \<Rightarrow> (err + Category) \<times> 's) \<Rightarrow> Category Context \<Rightarrow> 's world
     \<Rightarrow> Category result \<times> 's world" where
  "addCategory AddCategory c w =
     (case BindJSON c of
        Inl e \<Rightarrow> (Response StatusBadRequest (errorResponse e), w)
      | Inr category \<Rightarrow>
          (case call_srv (AddCategoryCall category) (AddCategory category) w of
             (Inl e, w') \<Rightarrow>
               if errors_Is e ErrCategoryExists then
                 (Response StatusConflict (errorResponse (Error e)), w')
               else
                 (Response StatusInternalServerError (errorResponse (Error e)),
                  log_Error (Error e) w')
           | (Inr newCategory, w') \<Rightarrow> (Response StatusCreated (JSON newCategory), w')))"

definition updateCategory ::
  "(string \<Rightarrow> string \<Rightarrow> 's \<Rightarrow> (err + Category) \<times> 's) \<Rightarrow> unit Context \<Rightarrow> 's world
     \<Rightarrow> Category result \<times> 's world" where
  "updateCategory UpdateCategory c w =
     (case BindUri c of
        Inl e \<Rightarrow> (Response StatusBadRequest (errorResponse e), w)
      | Inr uri \<Rightarrow>
          (case BindQuery c of
             Inl e \<Rightarrow> (Response StatusBadRequest (errorResponse e), w)
           | Inr query \<Rightarrow>
               (case call_srv (UpdateCategoryCall uri query) (UpdateCategory uri query) w of
                  (Inl e, w') \<Rightarrow>
                    if errors_Is e ErrCategoryNotFound then
                      (Response StatusNotFound (errorResponse (Error e)), w')
                    else
                      (Response StatusInternalServerError (errorResponse (Error e)),
                       log_Error (Error e) w')
                | (Inr newCategory, w') \<Rightarrow> (Response StatusOK (JSON newCategory), w'))))"

definition deleteCategory ::
  "(string \<Rightarrow> 's \<Rightarrow> err option \<times> 's) \<Rightarrow> unit Context \<Rightarrow> 's world
     \<Rightarrow> unit result \<times> 's world" where
  "deleteCategory DeleteCategory c w =
     (case BindUri c of
        Inl e \<Rightarrow> (Response StatusBadRequest (errorResponse e), w)
      | Inr uri \<Rightarrow>
          (case call_srv (DeleteCategoryCall uri) (DeleteCategory uri) w of
             (Some e, w') \<Rightarrow>
               if errors_Is e ErrCategoryNotFound then
                 (Response StatusNotFound (errorResponse (Error e)), w')
               else
                 (Response StatusInternalServerError (errorResponse (Error e)),
                  log_Error (Error e) w')
           | (None, w') \<Rightarrow> (Response StatusNoContent NoBody, w')))"

section \<open>The service behind the handlers\<close>

text \<open>
  The service and the repository that the handlers call are not among the sources. The
  definitions of this section follow sections 4.1 to 4.5 of the specification. The state
  behind the service holds the Analytic records, the Posts (owned by an external
  collaborator and only read here), the Categories and the next id that the store
  assigns. The error kinds of the specification are the sentinels of the handlers:
  PostIDAlreadyExists is \<open>ErrPostIDExist\<close>, AnalyticDependencyNotFound is
  \<open>ErrAnalyticDependencyNotFound\<close>, AnalyticNotFound is \<open>ErrAnalyticNotFound\<close>, PostNotFound
  is \<open>ErrPostNotFound\<close>, CategoryAlreadyExists is \<open>ErrCategoryExists\<close> and CategoryNotFound
  is \<open>ErrCategoryNotFound\<close>. The texts of the errors are not given; the name of the kind
  stands for the text.
\<close>

text \<open>
  Modelled from the spec: the state of the persistence engine behind the service, which is
  not among the sources: the stored Analytic records, Posts and Categories.
\<close>

record Store =
  analytics :: "Analytic list"
  posts :: "PostResponse list"
  categories :: "Category list"
  next_id :: int

text \<open>
  Modelled from the spec: the error values of the repository package, which is not among
  the sources. Each is the sentinel itself, with the name of its kind in section 7 of the
  specification as its text.
\<close>

fun kind_name :: "sentinel \<Rightarrow> string" where
  "kind_name ErrPostIDExist = ''PostIDAlreadyExists''"
| "kind_name ErrAnalyticDependencyNotFound = ''AnalyticDependencyNotFound''"
| "kind_name ErrAnalyticNotFound = ''AnalyticNotFound''"
| "kind_name ErrPostNotFound = ''PostNotFound''"
| "kind_name ErrCategoryExists = ''CategoryAlreadyExists''"
| "kind_name ErrCategoryNotFound = ''CategoryNotFound''"

definition failure :: "sentinel \<Rightarrow> err" where
  "failure k = \<lparr>chain = [k], Error = kind_name k\<rparr>"

text \<open>
  Modelled from the spec: the Post Reference Resolver (4.2) and the lookup of the Analytic
  of a Post, both missing from the sources.
\<close>

definition PostExists :: "int \<Rightarrow> Store \<Rightarrow> bool" where
  "PostExists p s = List.member (map post_id (posts s)) p"

definition has_analytic :: "int \<Rightarrow> Store \<Rightarrow> bool" where
  "has_analytic p s = List.member (map PostID (analytics s)) p"

text \<open>
  Modelled from the spec: AddAnalytic of the service, missing from the sources (4.3). The
  duplicate check comes first, the dependency check second; otherwise the record is stored
  under an id assigned by the store and returned.
\<close>

definition AddAnalytic_spec :: "Analytic \<Rightarrow> Store \<Rightarrow> (err + Analytic) \<times> Store" where
  "AddAnalytic_spec a s =
     (if has_analytic (PostID a) s then (Inl (failure ErrPostIDExist), s)
      else if \<not> PostExists (PostID a) s then (Inl (failure ErrAnalyticDependencyNotFound), s)
      else
        let new = a\<lparr>ID := next_id s\<rparr>
        in (Inr new, s\<lparr>analytics := analytics s @ [new], next_id := next_id s + 1\<rparr>))"

text \<open>
  Modelled from the spec: the merge of a partial update into a record, missing from the
  sources (4.3, step 4). A field present in the update takes the update's value, a field
  absent from it keeps the stored value.
\<close>

definition apply_update :: "AnalyticUpdate \<Rightarrow> Analytic \<Rightarrow> Analytic" where
  "apply_update u a =
     a\<lparr>PostID := (case PostID_opt u of None \<Rightarrow> PostID a | Some p \<Rightarrow> p),
       metrics := AList.merge (metrics a) (metrics_opt u)\<rparr>"

text \<open>
  Modelled from the spec: UpdateAnalytic of the service, missing from the sources (4.3),
  after the emptiness check that the handler makes. The record must exist; an update that
  changes the PostID is checked as in AddAnalytic; then the update is merged into the
  stored record.
\<close>

definition UpdateAnalytic_spec ::
  "int \<Rightarrow> AnalyticUpdate \<Rightarrow> Store \<Rightarrow> (err + Analytic) \<times> Store" where
  "UpdateAnalytic_spec i u s =
     (case find (\<lambda>a. ID a = i) (analytics s) of
        None \<Rightarrow> (Inl (failure ErrAnalyticNotFound), s)
      | Some old \<Rightarrow>
          let changes = (case PostID_opt u of None \<Rightarrow> False | Some p \<Rightarrow> p \<noteq> PostID old);
              new = apply_update u old
          in if changes \<and> has_analytic (PostID new) s then (Inl (failure ErrPostIDExist), s)
             else if changes \<and> \<not> PostExists (PostID new) s then
               (Inl (failure ErrAnalyticDependencyNotFound), s)
             else
               (Inr new, s\<lparr>analytics := map (\<lambda>a. if ID a = i then new else a) (analytics s)\<rparr>))"

text \<open>
  Modelled from the spec: DeleteAnalytic of the service, missing from the sources (4.3). It
  fails with AnalyticNotFound when no record has the id.
\<close>

definition DeleteAnalytic_spec :: "int \<Rightarrow> Store \<Rightarrow> err option \<times> Store" where
  "DeleteAnalytic_spec i s =
     (if List.member (map ID (analytics s)) i then
        (None, s\<lparr>analytics := filter (\<lambda>a. ID a \<noteq> i) (analytics s)\<rparr>)
      else (Some (failure ErrAnalyticNotFound), s))"

text \<open>
  Modelled from the spec: GetAllCategories of the service, missing from the sources (4.1).
  An empty category store is CategoryNotFound, the policy of the original that the handler
  maps to 404.
\<close>

definition GetAllCategories_spec :: "Store \<Rightarrow> (err + Category list) \<times> Store" where
  "GetAllCategories_spec s =
     (if categories s = [] then (Inl (failure ErrCategoryNotFound), s)
      else (Inr (categories s), s))"

text \<open>
  Modelled from the spec: the grouping of Posts by the title of their Category, missing
  from the sources (4.5). A Post whose Category is not in the store is left out.
\<close>

definition group_by_title ::
  "Category list \<Rightarrow> PostResponse list \<Rightarrow> (string \<times> PostResponse list) list" where
  "group_by_title cs ps =
     (let live = filter (\<lambda>p. List.member (map Title cs) (category_title p)) ps
      in map (\<lambda>t. (t, filter (\<lambda>p. category_title p = t) live))
           (remdups (map category_title live)))"

text \<open>
  Modelled from the spec: GetCategoriesWithPublicPosts and GetCategoriesWithPosts of the
  service, missing from the sources (4.5). No public Post at all, or no Post at all, is
  PostNotFound.
\<close>

definition GetCategoriesWithPublicPosts_spec ::
  "Store \<Rightarrow> (err + (string \<times> PostResponse list) list) \<times> Store" where
  "GetCategoriesWithPublicPosts_spec s =
     (let ps = filter public (posts s)
      in if ps = [] then (Inl (failure ErrPostNotFound), s)
         else (Inr (group_by_title (categories s) ps), s))"

definition GetCategoriesWithPosts_spec ::
  "Store \<Rightarrow> (err + (string \<times> PostResponse list) list) \<times> Store" where
  "GetCategoriesWithPosts_spec s =
     (if posts s = [] then (Inl (failure ErrPostNotFound), s)
      else (Inr (group_by_title (categories s) (posts s)), s))"

text \<open>
  Modelled from the spec: AddCategory, UpdateCategory and DeleteCategory of the service,
  missing from the sources (4.1). AddCategory refuses a title that is present.
  UpdateCategory and DeleteCategory fail with CategoryNotFound on an absent title; a rename
  reaches the Posts of the category. What a rename to a title already in use does, and what
  deleting a present category does to its Posts, is left open by the specification: both
  are parameters.
\<close>

definition AddCategory_spec :: "Category \<Rightarrow> Store \<Rightarrow> (err + Category) \<times> Store" where
  "AddCategory_spec c s =
     (if List.member (map Title (categories s)) (Title c) then
        (Inl (failure ErrCategoryExists), s)
      else (Inr c, s\<lparr>categories := categories s @ [c]\<rparr>))"

definition UpdateCategory_spec ::
  "(string \<Rightarrow> string \<Rightarrow> Store \<Rightarrow> (err + Category) \<times> Store) \<Rightarrow> string \<Rightarrow> string \<Rightarrow> Store
     \<Rightarrow> (err + Category) \<times> Store" where
  "UpdateCategory_spec on_clash old new s =
     (if \<not> List.member (map Title (categories s)) old then
        (Inl (failure ErrCategoryNotFound), s)
      else if new \<noteq> old \<and> List.member (map Title (categories s)) new then on_clash old new s
      else
        (Inr \<lparr>Title = new\<rparr>,
         s\<lparr>categories := map (\<lambda>c. if Title c = old then c\<lparr>Title := new\<rparr> else c) (categories s),
           posts := map (\<lambda>p. if category_title p = old then p\<lparr>category_title := new\<rparr> else p)
                      (posts s)\<rparr>))"

definition DeleteCategory_spec ::
  "(string \<Rightarrow> Store \<Rightarrow> err option \<times> Store) \<Rightarrow> string \<Rightarrow> Store \<Rightarrow> err option \<times> Store" where
  "DeleteCategory_spec policy t s =
     (if \<not> List.member (map Title (categories s)) t then
        (Some (failure ErrCategoryNotFound), s)
      else policy t s)"

text \<open>
  Modelled from the spec: GetAnalyticWithWords of the service, missing from the sources
  (4.5). AnalyticNotFound when the Post has no Analytic; otherwise the Analytic with the
  word statistics of the Post, shaped by the role. The shaping policy and the word
  statistics are external, so both are parameters.
\<close>

definition GetAnalyticWithWords_spec ::
  "(string \<Rightarrow> WordStat list \<Rightarrow> WordStat list) \<Rightarrow> (int \<Rightarrow> WordStat list) \<Rightarrow> int \<Rightarrow> string
     \<Rightarrow> Store \<Rightarrow> (err + AnalyticWithWords list) \<times> Store" where
  "GetAnalyticWithWords_spec shape words_of p role s =
     (case filter (\<lambda>a. PostID a = p) (analytics s) of
        [] \<Rightarrow> (Inl (failure ErrAnalyticNotFound), s)
      | found \<Rightarrow> (Inr (map (\<lambda>a. \<lparr>stored = a, words = shape role (words_of p)\<rparr>) found), s))"

subsection \<open>Runs of the analytic operations\<close>

text \<open>
  A history of the store: AddAnalytic, UpdateAnalytic and DeleteAnalytic requests, mixed
  with changes that the external collaborator makes to the Posts. A history starts from a
  store without Analytic records; the first id that the store assigns is not fixed by the
  specification.
\<close>

datatype op =
    OpAdd Analytic
  | OpUpdate int AnalyticUpdate
  | OpDelete int
  | OpPosts "PostResponse list"

fun step :: "op \<Rightarrow> Store \<Rightarrow> Store" where
  "step (OpAdd a) s = snd (AddAnalytic_spec a s)"
| "step (OpUpdate i u) s = snd (UpdateAnalytic_spec i u s)"
| "step (OpDelete i) s = snd (DeleteAnalytic_spec i s)"
| "step (OpPosts ps) s = s\<lparr>posts := ps\<rparr>"

definition run :: "op list \<Rightarrow> Store \<Rightarrow> Store" where
  "run ops s = fold step ops s"

definition Store_init :: "PostResponse list \<Rightarrow> Category list \<Rightarrow> int \<Rightarrow> Store" where
  "Store_init ps cs n = \<lparr>analytics = [], posts = ps, categories = cs, next_id = n\<rparr>"

text \<open>
  An operation releases the PostID \<open>p\<close> held by the record with id \<open>i\<close> when it deletes
  that record or asks to give it another PostID.
\<close>

fun releases :: "int \<Rightarrow> int \<Rightarrow> op \<Rightarrow> bool" where
  "releases p i (OpDelete j) = (i = j)"
| "releases p i (OpUpdate j u) =
     (i = j \<and> (case PostID_opt u of None \<Rightarrow> False | Some q \<Rightarrow> q \<noteq> p))"
| "releases p i _ = False"

text \<open>
  A store is in order when no two Analytic records share a PostID or an id and every id in
  use is below the next id to assign. The PostID \<open>p\<close> is held by the record with id \<open>i\<close>
  when that record is in the store with that PostID.
\<close>

definition store_ok :: "Store \<Rightarrow> bool" where
  "store_ok s =
     (distinct (map PostID (analytics s)) \<and> distinct (map ID (analytics s))
      \<and> list_all (\<lambda>a. ID a < next_id s) (analytics s))"

definition holds :: "int \<Rightarrow> int \<Rightarrow> Store \<Rightarrow> bool" where
  "holds p i s = list_ex (\<lambda>x. ID x = i \<and> PostID x = p) (analytics s)"

subsection \<open>Requests and worlds for the examples\<close>

text \<open>
  A request to a route with an id parameter, the keys set by the middleware and the
  outcome of binding the body; and the world in which nothing has been called or logged.
\<close>

definition request :: "string \<Rightarrow> (string \<rightharpoonup> any) \<Rightarrow> (string + 'b) \<Rightarrow> 'b Context" where
  "request i ks b =
     \<lparr>Param = (\<lambda>k. if k = ''id'' then i else []), Keys = ks, BindJSON = b,
      BindUri = Inl ''no uri'', BindQuery = Inl ''no query''\<rparr>"

definition world_of :: "'s \<Rightarrow> 's world" where
  "world_of s = \<lparr>db = s, calls = [], logged = []\<rparr>"

definition category_request :: "(string + string) \<Rightarrow> (string + string) \<Rightarrow> unit Context" where
  "category_request uri query =
     \<lparr>Param = (\<lambda>k. []), Keys = Map.empty, BindJSON = Inl ''no body'',
      BindUri = uri, BindQuery = query\<rparr>"

text \<open>
  A store with two Posts in one Category and an Analytic for each of them, the same store
  with a second Category, and a store with nothing in it.
\<close>

definition demo_store :: Store where
  "demo_store =
     \<lparr>analytics = [\<lparr>ID = 1, PostID = 7, metrics = [(''a'', 1), (''b'', 2)]\<rparr>,
                   \<lparr>ID = 2, PostID = 8, metrics = []\<rparr>],
      posts = [\<lparr>post_id = 7, category_title = ''news'', public = True\<rparr>,
               \<lparr>post_id = 8, category_title = ''news'', public = False\<rparr>],
      categories = [\<lparr>Title = ''news''\<rparr>],
      next_id = 3\<rparr>"

definition two_category_store :: Store where
  "two_category_store = demo_store\<lparr>categories := [\<lparr>Title = ''news''\<rparr>, \<lparr>Title = ''sport''\<rparr>]\<rparr>"

definition empty_store :: Store where
  "empty_store = Store_init [] [] 1"

subsection \<open>What is observed of an outcome\<close>

text \<open>
  Whether a handler wrote to the operator log; whether it took the branch of the unexpected
  error, which answers 500; and whether its answer is the error response that carries the
  text of a given error.
\<close>

definition wrote_log :: "'s world \<Rightarrow> 'a result \<times> 's world \<Rightarrow> bool" where
  "wrote_log w out = (logged (snd out) \<noteq> logged w)"

definition unexpected :: "'a result \<times> 's world \<Rightarrow> bool" where
  "unexpected out =
     (case fst out of Response st b \<Rightarrow> st = StatusInternalServerError | Panic \<Rightarrow> False)"

definition reports :: "err \<Rightarrow> 'a result \<Rightarrow> bool" where
  "reports e r =
     (case r of
        Response st (errorResponse m) \<Rightarrow>
          m = Error e \<and> List.member [StatusBadRequest, StatusNotFound, StatusConflict,
                                   StatusInternalServerError] st
      | _ \<Rightarrow> False)"

section \<open>Properties of the handlers\<close>

subsection \<open>What a handler does with an error of the service\<close>

text \<open>
  For each handler: the answer and the world after the service method has returned an
  error. The status follows the order of the cases in the handler; only the last case
  writes to the log.
\<close>

lemmas handler_simps = call_srv_def log_Error_def Let_def

lemma addAnalytic_error:
  "BindJSON c = Inr (Some a) \<Longrightarrow> A a (db w) = (Inl e, d) \<Longrightarrow>
   addAnalytic A c w =
     (Response (if errors_Is e ErrPostIDExist then StatusBadRequest
                else if errors_Is e ErrAnalyticDependencyNotFound then StatusConflict
                else StatusInternalServerError) (errorResponse (Error e)),
      w\<lparr>db := d, calls := calls w @ [AddAnalyticCall a],
        logged := logged w @
          (if errors_Is e ErrPostIDExist \<or> errors_Is e ErrAnalyticDependencyNotFound then []
           else [Error e])\<rparr>)"
  by (simp add: addAnalytic_def handler_simps)

lemma updateAnalytic_error:
  "BindJSON c = Inr (Some u) \<Longrightarrow> \<not> IsEmpty u \<Longrightarrow> U (fst (Atoi (Param c ''id''))) u (db w) = (Inl e, d) \<Longrightarrow>
   updateAnalytic U c w =
     (Response (if errors_Is e ErrPostIDExist then StatusBadRequest
                else if errors_Is e ErrAnalyticNotFound then StatusNotFound
                else if errors_Is e ErrAnalyticDependencyNotFound then StatusConflict
                else StatusInternalServerError) (errorResponse (Error e)),
      w\<lparr>db := d, calls := calls w @ [UpdateAnalyticCall (fst (Atoi (Param c ''id''))) u],
        logged := logged w @
          (if errors_Is e ErrPostIDExist \<or> errors_Is e ErrAnalyticNotFound
              \<or> errors_Is e ErrAnalyticDependencyNotFound then []
           else [Error e])\<rparr>)"
  by (simp add: updateAnalytic_def handler_simps)

lemma deleteAnalytic_error:
  "D (fst (Atoi (Param c ''id''))) (db w) = (Some e, d) \<Longrightarrow>
   deleteAnalytic D c w =
     (Response (if errors_Is e ErrAnalyticNotFound then StatusNotFound
                else StatusInternalServerError) (errorResponse (Error e)),
      w\<lparr>db := d, calls := calls w @ [DeleteAnalyticCall (fst (Atoi (Param c ''id'')))],
        logged := logged w @ (if errors_Is e ErrAnalyticNotFound then [] else [Error e])\<rparr>)"
  by (simp add: deleteAnalytic_def handler_simps)

lemma getAnalyticWithWords_error:
  "Keys c ''role'' = Some (AnyString r) \<Longrightarrow> G (fst (Atoi (Param c ''id''))) r (db w) = (Inl e, d) \<Longrightarrow>
   getAnalyticWithWordsByPostID G c w =
     (Response (if errors_Is e ErrAnalyticNotFound then StatusNotFound
                else StatusInternalServerError) (errorResponse (Error e)),
      w\<lparr>db := d, calls := calls w @ [GetAnalyticWithWordsCall (fst (Atoi (Param c ''id''))) r],
        logged := logged w @ (if errors_Is e ErrAnalyticNotFound then [] else [Error e])\<rparr>)"
  by (simp add: getAnalyticWithWordsByPostID_def handler_simps)

lemma getCategoriesWithPublicPosts_error:
  "P (db w) = (Inl e, d) \<Longrightarrow>
   getCategoriesWithPublicPosts P c w =
     (Response (if errors_Is e ErrPostNotFound then StatusNotFound
                else StatusInternalServerError) (errorResponse (Error e)),
      w\<lparr>db := d, calls := calls w @ [GetCategoriesWithPublicPostsCall],
        logged := logged w @ (if errors_Is e ErrPostNotFound then [] else [Error e])\<rparr>)"
  by (simp add: getCategoriesWithPublicPosts_def handler_simps)

lemma getCategoriesWithPosts_error:
  "P (db w) = (Inl e, d) \<Longrightarrow>
   getCategoriesWithPosts P c w =
     (Response (if errors_Is e ErrPostNotFound then StatusNotFound
                else StatusInternalServerError) (errorResponse (Error e)),
      w\<lparr>db := d, calls := calls w @ [GetCategoriesWithPostsCall],
        logged := logged w @ (if errors_Is e ErrPostNotFound then [] else [Error e])\<rparr>)"
  by (simp add: getCategoriesWithPosts_def handler_simps)

lemma getAllCategories_error:
  "L (db w) = (Inl e, d) \<Longrightarrow>
   getAllCategories L c w =
     (Response (if errors_Is e ErrCategoryNotFound then StatusNotFound
                else StatusInternalServerError) (errorResponse (Error e)),
      w\<lparr>db := d, calls := calls w @ [GetAllCategoriesCall],
        logged := logged w @ (if errors_Is e ErrCategoryNotFound then [] else [Error e])\<rparr>)"
  by (simp add: getAllCategories_def handler_simps)

lemma addCategory_error:
  "BindJSON c = Inr a \<Longrightarrow> A a (db w) = (Inl e, d) \<Longrightarrow>
   addCategory A c w =
     (Response (if errors_Is e ErrCategoryExists then StatusConflict
                else StatusInternalServerError) (errorResponse (Error e)),
      w\<lparr>db := d, calls := calls w @ [AddCategoryCall a],
        logged := logged w @ (if errors_Is e ErrCategoryExists then [] else [Error e])\<rparr>)"
  by (simp add: addCategory_def handler_simps)

lemma updateCategory_error:
  "BindUri c = Inr t \<Longrightarrow> BindQuery c = Inr t' \<Longrightarrow> U t t' (db w) = (Inl e, d) \<Longrightarrow>
   updateCategory U c w =
     (Response (if errors_Is e ErrCategoryNotFound then StatusNotFound
                else StatusInternalServerError) (errorResponse (Error e)),
      w\<lparr>db := d, calls := calls w @ [UpdateCategoryCall t t'],
        logged := logged w @ (if errors_Is e ErrCategoryNotFound then [] else [Error e])\<rparr>)"
  by (simp add: updateCategory_def handler_simps)

lemma deleteCategory_error:
  "BindUri c = Inr t \<Longrightarrow> D t (db w) = (Some e, d) \<Longrightarrow>
   deleteCategory D c w =
     (Response (if errors_Is e ErrCategoryNotFound then StatusNotFound
                else StatusInternalServerError) (errorResponse (Error e)),
      w\<lparr>db := d, calls := calls w @ [DeleteCategoryCall t],
        logged := logged w @ (if errors_Is e ErrCategoryNotFound then [] else [Error e])\<rparr>)"
  by (simp add: deleteCategory_def handler_simps)

text \<open>Unfolding sets for evaluating the handlers on the example requests.\<close>

lemmas srv_simps = AddAnalytic_spec_def UpdateAnalytic_spec_def DeleteAnalytic_spec_def
  GetAnalyticWithWords_spec_def GetAllCategories_spec_def GetCategoriesWithPublicPosts_spec_def
  GetCategoriesWithPosts_spec_def AddCategory_spec_def UpdateCategory_spec_def
  DeleteCategory_spec_def has_analytic_def PostExists_def failure_def apply_update_def

lemmas demo_simps = demo_store_def two_category_store_def empty_store_def Store_init_def
  world_of_def request_def
  category_request_def

lemmas Atoi_simps = Atoi_def ParseInt_def ParseUint_def digit_def maxUint64_def

subsection \<open>Empty updates are rejected before the service is reached\<close>

text \<open>
  C3. A request to updateAnalytic whose body binds to an AnalyticUpdate with every
  optional field unset is answered with 400 and the text "analytic has no changes"; the
  world is returned as it was, so no service method has been called, the state behind the
  service is untouched and nothing is logged. This holds for every service method, hence
  whether or not an Analytic with the target id exists.
\<close>

theorem updateAnalytic_empty_rejected:
  assumes "BindJSON c = Inr (Some u)" and "IsEmpty u"
  shows "updateAnalytic UpdateAnalytic c w =
           (Response StatusBadRequest (errorResponse ''analytic has no changes''), w)"
  using assms by (simp add: updateAnalytic_def)

theorem updateAnalytic_empty_rejected_witness:
  "BindJSON (request ''5'' Map.empty (Inr (Some \<lparr>PostID_opt = None, metrics_opt = []\<rparr>)))
     = Inr (Some \<lparr>PostID_opt = None, metrics_opt = []\<rparr>)
   \<and> IsEmpty \<lparr>PostID_opt = None, metrics_opt = []\<rparr>
   \<and> updateAnalytic UpdateAnalytic_spec
        (request ''5'' Map.empty (Inr (Some \<lparr>PostID_opt = None, metrics_opt = []\<rparr>)))
        (world_of (Store_init [] [] 1))
      = (Response StatusBadRequest (errorResponse ''analytic has no changes''),
         world_of (Store_init [] [] 1))"
  using updateAnalytic_empty_rejected
    [of "request ''5'' Map.empty (Inr (Some \<lparr>PostID_opt = None, metrics_opt = []\<rparr>))"
        "\<lparr>PostID_opt = None, metrics_opt = []\<rparr>" UpdateAnalytic_spec
        "world_of (Store_init [] [] 1)"]
  by (simp add: request_def IsEmpty_def)

subsection \<open>The role of the caller\<close>

text \<open>
  C5. When the context of a getAnalyticWithWordsByPostID request has no role, the answer is
  401 with the text "not found role" and the world is unchanged: the service has not been
  called. A 404 answer is given only when a role is present, the service has been called
  with it and has returned an error that is ErrAnalyticNotFound.
\<close>

theorem missing_role_before_data:
  "(Keys c ''role'' = None \<longrightarrow>
      getAnalyticWithWordsByPostID G c w =
        (Response StatusUnauthorized (errorResponse ''not found role''), w))
   \<and> (fst (getAnalyticWithWordsByPostID G c w) = Response StatusNotFound b \<longrightarrow>
        (\<exists>role e d. Keys c ''role'' = Some (AnyString role)
           \<and> G (fst (Atoi (Param c ''id''))) role (db w) = (Inl e, d)
           \<and> errors_Is e ErrAnalyticNotFound \<and> b = errorResponse (Error e)))"
  by (auto simp: getAnalyticWithWordsByPostID_def call_srv_def Let_def
      split: option.splits any.splits prod.splits sum.splits if_splits)

theorem missing_role_before_data_witness:
  "Keys (request ''7'' Map.empty (Inl [])) ''role'' = None
   \<and> getAnalyticWithWordsByPostID (GetAnalyticWithWords_spec (\<lambda>r ws. ws) (\<lambda>p. []))
        (request ''7'' Map.empty (Inl [])) (world_of (Store_init [] [] 1))
      = (Response StatusUnauthorized (errorResponse ''not found role''),
         world_of (Store_init [] [] 1))
   \<and> fst (getAnalyticWithWordsByPostID (GetAnalyticWithWords_spec (\<lambda>r ws. ws) (\<lambda>p. []))
        (request ''7'' [''role'' \<mapsto> AnyString ''admin''] (Inl []))
        (world_of (Store_init [] [] 1)))
      = Response StatusNotFound (errorResponse ''AnalyticNotFound'')
   \<and> (\<exists>role. Keys (request ''7'' [''role'' \<mapsto> AnyString ''admin''] (Inl [])) ''role''
         = Some (AnyString role))"
  using missing_role_before_data
    [of "request ''7'' Map.empty (Inl [])"
        "GetAnalyticWithWords_spec (\<lambda>r ws. ws) (\<lambda>p. [])" "world_of (Store_init [] [] 1)"]
    missing_role_before_data
    [where G = "GetAnalyticWithWords_spec (\<lambda>r ws. ws) (\<lambda>p. [])"
       and c = "request ''7'' [''role'' \<mapsto> AnyString ''admin''] (Inl [])"
       and w = "world_of (Store_init [] [] 1)" and b = "errorResponse ''AnalyticNotFound''"]
  by (simp add: request_def getAnalyticWithWordsByPostID_def call_srv_def world_of_def
      Store_init_def GetAnalyticWithWords_spec_def failure_def errors_Is_def)

text \<open>
  C10. With the role bound to a string, the handler calls the service with that role and
  answers 200, 404 or 500. With the role bound to a value of any other dynamic type, the
  type assertion fails and the handler panics, before the service is called.
\<close>

theorem role_type_assertion:
  "(Keys c ''role'' = Some (AnyString r) \<longrightarrow>
      (\<exists>st b. fst (getAnalyticWithWordsByPostID G c w) = Response st b
         \<and> (st = StatusOK \<or> st = StatusNotFound \<or> st = StatusInternalServerError))
      \<and> calls (snd (getAnalyticWithWordsByPostID G c w)) =
          calls w @ [GetAnalyticWithWordsCall (fst (Atoi (Param c ''id''))) r])
   \<and> (Keys c ''role'' = Some v \<and> \<not> isString v \<longrightarrow>
        getAnalyticWithWordsByPostID G c w = (Panic, w))"
  by (cases v) (auto simp: getAnalyticWithWordsByPostID_def call_srv_def Let_def log_Error_def
      split: option.splits any.splits prod.splits sum.splits if_splits)

theorem role_type_assertion_witness:
  "Keys (request ''7'' [''role'' \<mapsto> AnyString ''admin''] (Inl [])) ''role''
     = Some (AnyString ''admin'')
   \<and> calls (snd (getAnalyticWithWordsByPostID (GetAnalyticWithWords_spec (\<lambda>r ws. ws) (\<lambda>p. []))
        (request ''7'' [''role'' \<mapsto> AnyString ''admin''] (Inl []))
        (world_of (Store_init [] [] 1))))
      = [GetAnalyticWithWordsCall 7 ''admin'']
   \<and> Keys (request ''7'' [''role'' \<mapsto> AnyInt 1] (Inl [])) ''role'' = Some (AnyInt 1)
   \<and> \<not> isString (AnyInt 1)
   \<and> getAnalyticWithWordsByPostID (GetAnalyticWithWords_spec (\<lambda>r ws. ws) (\<lambda>p. []))
        (request ''7'' [''role'' \<mapsto> AnyInt 1] (Inl [])) (world_of (Store_init [] [] 1))
      = (Panic, world_of (Store_init [] [] 1))"
  using role_type_assertion
    [where c = "request ''7'' [''role'' \<mapsto> AnyString ''admin''] (Inl [])" and r = "''admin''"
       and G = "GetAnalyticWithWords_spec (\<lambda>r ws. ws) (\<lambda>p. [])"
       and w = "world_of (Store_init [] [] 1)" and v = "AnyString ''admin''"]
    role_type_assertion
    [where c = "request ''7'' [''role'' \<mapsto> AnyInt 1] (Inl [])" and r = "''admin''"
       and G = "GetAnalyticWithWords_spec (\<lambda>r ws. ws) (\<lambda>p. [])"
       and w = "world_of (Store_init [] [] 1)" and v = "AnyInt 1"]
  by (simp add: request_def world_of_def Atoi_def ParseInt_def ParseUint_def digit_def
      maxUint64_def)

subsection \<open>The status of each error\<close>

text \<open>
  Two errors of the duplicate kind that are answered outside the Conflict status. A second
  AddAnalytic for a Post that has an Analytic is answered with 400, the status of a
  malformed request. A rename that the service refuses with CategoryAlreadyExists is
  answered by updateCategory with 500, a status outside the 4xx class: the handler names
  only CategoryNotFound.
\<close>

theorem duplicate_errors_outside_conflict:
  "fst (addAnalytic AddAnalytic_spec
          (request [] Map.empty (Inr (Some \<lparr>ID = 0, PostID = 7, metrics = []\<rparr>)))
          (world_of demo_store))
     = Response StatusBadRequest (errorResponse ''PostIDAlreadyExists'')
   \<and> fst (updateCategory (UpdateCategory_spec (\<lambda>old new s. (Inl (failure ErrCategoryExists), s)))
          (category_request (Inr ''news'') (Inr ''sport'')) (world_of two_category_store))
     = Response StatusInternalServerError (errorResponse ''CategoryAlreadyExists'')"
  by (simp add: addAnalytic_def updateCategory_def handler_simps srv_simps demo_simps
      errors_Is_def)

text \<open>
  C6, as the handlers have it. Each handler maps the errors it names, in the order of its
  cases, and no others. addCategory answers CategoryAlreadyExists with 409. addAnalytic and
  updateAnalytic answer PostIDAlreadyExists with 400 and AnalyticDependencyNotFound with 409.
  updateAnalytic, deleteAnalytic and getAnalyticWithWordsByPostID answer AnalyticNotFound
  with 404; the two listings of categories with posts answer PostNotFound with 404;
  getAllCategories, updateCategory and deleteCategory answer CategoryNotFound with 404. An
  empty update is answered with 400 and a missing role with 401. Every other error of the
  service is answered with 500, also one of the errors above when it reaches a handler that
  does not name it.
\<close>
theorem error_status_mapping:
  "(BindJSON cc = Inr t \<and> AddCategory t (db w) = (Inl e, d) \<longrightarrow>
      fst (addCategory AddCategory cc w) =
        Response (if errors_Is e ErrCategoryExists then StatusConflict
                  else StatusInternalServerError) (errorResponse (Error e)))
   \<and> (BindJSON ca = Inr (Some a) \<and> AddAnalytic a (db w) = (Inl e, d) \<longrightarrow>
      fst (addAnalytic AddAnalytic ca w) =
        Response (if errors_Is e ErrPostIDExist then StatusBadRequest
                  else if errors_Is e ErrAnalyticDependencyNotFound then StatusConflict
                  else StatusInternalServerError) (errorResponse (Error e)))
   \<and> (BindJSON cu = Inr (Some u) \<and> \<not> IsEmpty u
        \<and> UpdateAnalytic (fst (Atoi (Param cu ''id''))) u (db w) = (Inl e, d) \<longrightarrow>
      fst (updateAnalytic UpdateAnalytic cu w) =
        Response (if errors_Is e ErrPostIDExist then StatusBadRequest
                  else if errors_Is e ErrAnalyticNotFound then StatusNotFound
                  else if errors_Is e ErrAnalyticDependencyNotFound then StatusConflict
                  else StatusInternalServerError) (errorResponse (Error e)))
   \<and> (BindJSON cu = Inr (Some u) \<and> IsEmpty u \<longrightarrow>
      fst (updateAnalytic UpdateAnalytic cu w) =
        Response StatusBadRequest (errorResponse ''analytic has no changes''))
   \<and> (DeleteAnalytic (fst (Atoi (Param c ''id''))) (db w) = (Some e, d) \<longrightarrow>
      fst (deleteAnalytic DeleteAnalytic c w) =
        Response (if errors_Is e ErrAnalyticNotFound then StatusNotFound
                  else StatusInternalServerError) (errorResponse (Error e)))
   \<and> (Keys c ''role'' = Some (AnyString r)
        \<and> GetAnalyticWithWords (fst (Atoi (Param c ''id''))) r (db w) = (Inl e, d) \<longrightarrow>
      fst (getAnalyticWithWordsByPostID GetAnalyticWithWords c w) =
        Response (if errors_Is e ErrAnalyticNotFound then StatusNotFound
                  else StatusInternalServerError) (errorResponse (Error e)))
   \<and> (Keys c ''role'' = None \<longrightarrow>
      fst (getAnalyticWithWordsByPostID GetAnalyticWithWords c w) =
        Response StatusUnauthorized (errorResponse ''not found role''))
   \<and> (GetCategoriesWithPublicPosts (db w) = (Inl e, d) \<longrightarrow>
      fst (getCategoriesWithPublicPosts GetCategoriesWithPublicPosts c w) =
        Response (if errors_Is e ErrPostNotFound then StatusNotFound
                  else StatusInternalServerError) (errorResponse (Error e)))
   \<and> (GetCategoriesWithPosts (db w) = (Inl e, d) \<longrightarrow>
      fst (getCategoriesWithPosts GetCategoriesWithPosts c w) =
        Response (if errors_Is e ErrPostNotFound then StatusNotFound
                  else StatusInternalServerError) (errorResponse (Error e)))
   \<and> (GetAllCategories (db w) = (Inl e, d) \<longrightarrow>
      fst (getAllCategories GetAllCategories c w) =
        Response (if errors_Is e ErrCategoryNotFound then StatusNotFound
                  else StatusInternalServerError) (errorResponse (Error e)))
   \<and> (BindUri c = Inr old \<and> BindQuery c = Inr new
        \<and> UpdateCategory old new (db w) = (Inl e, d) \<longrightarrow>
      fst (updateCategory UpdateCategory c w) =
        Response (if errors_Is e ErrCategoryNotFound then StatusNotFound
                  else StatusInternalServerError) (errorResponse (Error e)))
   \<and> (BindUri c = Inr old \<and> DeleteCategory old (db w) = (Some e, d) \<longrightarrow>
      fst (deleteCategory DeleteCategory c w) =
        Response (if errors_Is e ErrCategoryNotFound then StatusNotFound
                  else StatusInternalServerError) (errorResponse (Error e)))"
  by (simp add: addCategory_error addAnalytic_error updateAnalytic_error deleteAnalytic_error
      getAnalyticWithWords_error getCategoriesWithPublicPosts_error getCategoriesWithPosts_error
      getAllCategories_error updateCategory_error deleteCategory_error)
     (simp add: updateAnalytic_def getAnalyticWithWordsByPostID_def)

theorem error_status_mapping_witness:
  "fst (addCategory AddCategory_spec (request [] Map.empty (Inr \<lparr>Title = ''news''\<rparr>)) (world_of demo_store))
      = Response StatusConflict (errorResponse ''CategoryAlreadyExists'')
   \<and> fst (addAnalytic AddAnalytic_spec
           (request [] Map.empty (Inr (Some \<lparr>ID = 0, PostID = 7, metrics = []\<rparr>))) (world_of demo_store))
      = Response StatusBadRequest (errorResponse ''PostIDAlreadyExists'')
   \<and> fst (addAnalytic AddAnalytic_spec
           (request [] Map.empty (Inr (Some \<lparr>ID = 0, PostID = 9, metrics = []\<rparr>))) (world_of demo_store))
      = Response StatusConflict (errorResponse ''AnalyticDependencyNotFound'')
   \<and> fst (updateAnalytic UpdateAnalytic_spec
           (request ''99'' Map.empty (Inr (Some \<lparr>PostID_opt = Some 7, metrics_opt = []\<rparr>))) (world_of demo_store))
      = Response StatusNotFound (errorResponse ''AnalyticNotFound'')
   \<and> fst (updateAnalytic UpdateAnalytic_spec
           (request ''2'' Map.empty (Inr (Some \<lparr>PostID_opt = Some 7, metrics_opt = []\<rparr>))) (world_of demo_store))
      = Response StatusBadRequest (errorResponse ''PostIDAlreadyExists'')
   \<and> fst (updateAnalytic UpdateAnalytic_spec
           (request ''1'' Map.empty (Inr (Some \<lparr>PostID_opt = None, metrics_opt = []\<rparr>))) (world_of demo_store))
      = Response StatusBadRequest (errorResponse ''analytic has no changes'')
   \<and> fst (deleteAnalytic DeleteAnalytic_spec (request ''99'' Map.empty (Inl [])) (world_of demo_store))
      = Response StatusNotFound (errorResponse ''AnalyticNotFound'')
   \<and> fst (getAnalyticWithWordsByPostID (GetAnalyticWithWords_spec (\<lambda>r ws. ws) (\<lambda>p. []))
           (request ''99'' [''role'' \<mapsto> AnyString ''admin''] (Inl [])) (world_of demo_store))
      = Response StatusNotFound (errorResponse ''AnalyticNotFound'')
   \<and> fst (getAnalyticWithWordsByPostID (GetAnalyticWithWords_spec (\<lambda>r ws. ws) (\<lambda>p. []))
           (request ''7'' Map.empty (Inl [])) (world_of demo_store))
      = Response StatusUnauthorized (errorResponse ''not found role'')
   \<and> fst (getCategoriesWithPublicPosts GetCategoriesWithPublicPosts_spec
           (category_request (Inr ''news'') (Inr ''sport'')) (world_of empty_store))
      = Response StatusNotFound (errorResponse ''PostNotFound'')
   \<and> fst (getCategoriesWithPosts GetCategoriesWithPosts_spec
           (category_request (Inr ''news'') (Inr ''sport'')) (world_of empty_store))
      = Response StatusNotFound (errorResponse ''PostNotFound'')
   \<and> fst (getAllCategories GetAllCategories_spec
           (category_request (Inr ''news'') (Inr ''sport'')) (world_of empty_store))
      = Response StatusNotFound (errorResponse ''CategoryNotFound'')
   \<and> fst (updateCategory (UpdateCategory_spec (\<lambda>old new s. (Inl (failure ErrCategoryExists), s)))
           (category_request (Inr ''news'') (Inr ''sport'')) (world_of empty_store))
      = Response StatusNotFound (errorResponse ''CategoryNotFound'')
   \<and> fst (updateCategory (UpdateCategory_spec (\<lambda>old new s. (Inl (failure ErrCategoryExists), s)))
           (category_request (Inr ''news'') (Inr ''sport'')) (world_of two_category_store))
      = Response StatusInternalServerError (errorResponse ''CategoryAlreadyExists'')
   \<and> fst (deleteCategory (DeleteCategory_spec (\<lambda>t s. (None, s)))
           (category_request (Inr ''news'') (Inr ''sport'')) (world_of empty_store))
      = Response StatusNotFound (errorResponse ''CategoryNotFound'')
   \<and> fst (addCategory (\<lambda>c s. (Inl \<lparr>chain = [], Error = ''connection refused''\<rparr>, s))
           (request [] Map.empty (Inr \<lparr>Title = ''news''\<rparr>)) (world_of demo_store))
      = Response StatusInternalServerError (errorResponse ''connection refused'')"
proof -
  have w1: "fst (addCategory AddCategory_spec (request [] Map.empty (Inr \<lparr>Title = ''news''\<rparr>)) (world_of demo_store))
      = Response StatusConflict (errorResponse ''CategoryAlreadyExists'')"
    using error_status_mapping
      [where w = "world_of demo_store" and e = "failure ErrCategoryExists" and d = demo_store
         and cc = "request [] Map.empty (Inr \<lparr>Title = ''news''\<rparr>)" and t = "\<lparr>Title = ''news''\<rparr>"
         and AddCategory = AddCategory_spec,
       THEN conjunct1]
    by (simp add: srv_simps demo_simps Atoi_simps errors_Is_def IsEmpty_def)
  have w2: "fst (addAnalytic AddAnalytic_spec
           (request [] Map.empty (Inr (Some \<lparr>ID = 0, PostID = 7, metrics = []\<rparr>))) (world_of demo_store))
      = Response StatusBadRequest (errorResponse ''PostIDAlreadyExists'')"
    using error_status_mapping
      [where w = "world_of demo_store" and e = "failure ErrPostIDExist" and d = demo_store
         and ca = "request [] Map.empty (Inr (Some \<lparr>ID = 0, PostID = 7, metrics = []\<rparr>))"
         and a = "\<lparr>ID = 0, PostID = 7, metrics = []\<rparr>" and AddAnalytic = AddAnalytic_spec,
       THEN conjunct2, THEN conjunct1]
    by (simp add: srv_simps demo_simps Atoi_simps errors_Is_def IsEmpty_def)
  have w3: "fst (addAnalytic AddAnalytic_spec
           (request [] Map.empty (Inr (Some \<lparr>ID = 0, PostID = 9, metrics = []\<rparr>))) (world_of demo_store))
      = Response StatusConflict (errorResponse ''AnalyticDependencyNotFound'')"
    using error_status_mapping
      [where w = "world_of demo_store" and e = "failure ErrAnalyticDependencyNotFound" and d = demo_store
         and ca = "request [] Map.empty (Inr (Some \<lparr>ID = 0, PostID = 9, metrics = []\<rparr>))"
         and a = "\<lparr>ID = 0, PostID = 9, metrics = []\<rparr>" and AddAnalytic = AddAnalytic_spec,
       THEN conjunct2, THEN conjunct1]
    by (simp add: srv_simps demo_simps Atoi_simps errors_Is_def IsEmpty_def)
  have w4: "fst (updateAnalytic UpdateAnalytic_spec
           (request ''99'' Map.empty (Inr (Some \<lparr>PostID_opt = Some 7, metrics_opt = []\<rparr>))) (world_of demo_store))
      = Response StatusNotFound (errorResponse ''AnalyticNotFound'')"
    using error_status_mapping
      [where w = "world_of demo_store" and e = "failure ErrAnalyticNotFound" and d = demo_store
         and cu = "request ''99'' Map.empty (Inr (Some \<lparr>PostID_opt = Some 7, metrics_opt = []\<rparr>))"
         and u = "\<lparr>PostID_opt = Some 7, metrics_opt = []\<rparr>" and UpdateAnalytic = UpdateAnalytic_spec,
       THEN conjunct2, THEN conjunct2, THEN conjunct1]
    by (simp add: srv_simps demo_simps Atoi_simps errors_Is_def IsEmpty_def)
  have w5: "fst (updateAnalytic UpdateAnalytic_spec
           (request ''2'' Map.empty (Inr (Some \<lparr>PostID_opt = Some 7, metrics_opt = []\<rparr>))) (world_of demo_store))
      = Response StatusBadRequest (errorResponse ''PostIDAlreadyExists'')"
    using error_status_mapping
      [where w = "world_of demo_store" and e = "failure ErrPostIDExist" and d = demo_store
         and cu = "request ''2'' Map.empty (Inr (Some \<lparr>PostID_opt = Some 7, metrics_opt = []\<rparr>))"
         and u = "\<lparr>PostID_opt = Some 7, metrics_opt = []\<rparr>" and UpdateAnalytic = UpdateAnalytic_spec,
       THEN conjunct2, THEN conjunct2, THEN conjunct1]
    by (simp add: srv_simps demo_simps Atoi_simps errors_Is_def IsEmpty_def)
  have w6: "fst (updateAnalytic UpdateAnalytic_spec
           (request ''1'' Map.empty (Inr (Some \<lparr>PostID_opt = None, metrics_opt = []\<rparr>))) (world_of demo_store))
      = Response StatusBadRequest (errorResponse ''analytic has no changes'')"
    using error_status_mapping
      [where w = "world_of demo_store" and cu = "request ''1'' Map.empty (Inr (Some \<lparr>PostID_opt = None, metrics_opt = []\<rparr>))"
         and u = "\<lparr>PostID_opt = None, metrics_opt = []\<rparr>" and UpdateAnalytic = UpdateAnalytic_spec,
       THEN conjunct2, THEN conjunct2, THEN conjunct2, THEN conjunct1]
    by (simp add: srv_simps demo_simps Atoi_simps errors_Is_def IsEmpty_def)
  have w7: "fst (deleteAnalytic DeleteAnalytic_spec (request ''99'' Map.empty (Inl [])) (world_of demo_store))
      = Response StatusNotFound (errorResponse ''AnalyticNotFound'')"
    using error_status_mapping
      [where w = "world_of demo_store" and e = "failure ErrAnalyticNotFound" and d = demo_store
         and c = "request ''99'' Map.empty (Inl [])" and DeleteAnalytic = DeleteAnalytic_spec,
       THEN conjunct2, THEN conjunct2, THEN conjunct2, THEN conjunct2, THEN conjunct1]
    by (simp add: srv_simps demo_simps Atoi_simps errors_Is_def IsEmpty_def)
  have w8: "fst (getAnalyticWithWordsByPostID (GetAnalyticWithWords_spec (\<lambda>r ws. ws) (\<lambda>p. []))
           (request ''99'' [''role'' \<mapsto> AnyString ''admin''] (Inl [])) (world_of demo_store))
      = Response StatusNotFound (errorResponse ''AnalyticNotFound'')"
    using error_status_mapping
      [where w = "world_of demo_store" and e = "failure ErrAnalyticNotFound" and d = demo_store
         and c = "request ''99'' [''role'' \<mapsto> AnyString ''admin''] (Inl [])" and r = "''admin''"
         and GetAnalyticWithWords = "GetAnalyticWithWords_spec (\<lambda>r ws. ws) (\<lambda>p. [])",
       THEN conjunct2, THEN conjunct2, THEN conjunct2, THEN conjunct2, THEN conjunct2,
       THEN conjunct1]
    by (simp add: srv_simps demo_simps Atoi_simps errors_Is_def IsEmpty_def)
  have w9: "fst (getAnalyticWithWordsByPostID (GetAnalyticWithWords_spec (\<lambda>r ws. ws) (\<lambda>p. []))
           (request ''7'' Map.empty (Inl [])) (world_of demo_store))
      = Response StatusUnauthorized (errorResponse ''not found role'')"
    using error_status_mapping
      [where w = "world_of demo_store" and c = "request ''7'' Map.empty (Inl [])"
         and GetAnalyticWithWords = "GetAnalyticWithWords_spec (\<lambda>r ws. ws) (\<lambda>p. [])",
       THEN conjunct2, THEN conjunct2, THEN conjunct2, THEN conjunct2, THEN conjunct2,
       THEN conjunct2, THEN conjunct1]
    by (simp add: srv_simps demo_simps Atoi_simps errors_Is_def IsEmpty_def)
  have w10: "fst (getCategoriesWithPublicPosts GetCategoriesWithPublicPosts_spec
           (category_request (Inr ''news'') (Inr ''sport'')) (world_of empty_store))
      = Response StatusNotFound (errorResponse ''PostNotFound'')"
    using error_status_mapping
      [where w = "world_of empty_store" and e = "failure ErrPostNotFound" and d = empty_store
         and c = "category_request (Inr ''news'') (Inr ''sport'')"
         and GetCategoriesWithPublicPosts = GetCategoriesWithPublicPosts_spec,
       THEN conjunct2, THEN conjunct2, THEN conjunct2, THEN conjunct2, THEN conjunct2,
       THEN conjunct2, THEN conjunct2, THEN conjunct1]
    by (simp add: srv_simps demo_simps Atoi_simps errors_Is_def IsEmpty_def)
  have w11: "fst (getCategoriesWithPosts GetCategoriesWithPosts_spec
           (category_request (Inr ''news'') (Inr ''sport'')) (world_of empty_store))
      = Response StatusNotFound (errorResponse ''PostNotFound'')"
    using error_status_mapping
      [where w = "world_of empty_store" and e = "failure ErrPostNotFound" and d = empty_store
         and c = "category_request (Inr ''news'') (Inr ''sport'')"
         and GetCategoriesWithPosts = GetCategoriesWithPosts_spec,
       THEN conjunct2, THEN conjunct2, THEN conjunct2, THEN conjunct2, THEN conjunct2,
       THEN conjunct2, THEN conjunct2, THEN conjunct2, THEN conjunct1]
    by (simp add: srv_simps demo_simps Atoi_simps errors_Is_def IsEmpty_def)
  have w12: "fst (getAllCategories GetAllCategories_spec
           (category_request (Inr ''news'') (Inr ''sport'')) (world_of empty_store))
      = Response StatusNotFound (errorResponse ''CategoryNotFound'')"
    using error_status_mapping
      [where w = "world_of empty_store" and e = "failure ErrCategoryNotFound" and d = empty_store
         and c = "category_request (Inr ''news'') (Inr ''sport'')"
         and GetAllCategories = GetAllCategories_spec,
       THEN conjunct2, THEN conjunct2, THEN conjunct2, THEN conjunct2, THEN conjunct2,
       THEN conjunct2, THEN conjunct2, THEN conjunct2, THEN conjunct2, THEN conjunct1]
    by (simp add: srv_simps demo_simps Atoi_simps errors_Is_def IsEmpty_def)
  have w13: "fst (updateCategory (UpdateCategory_spec (\<lambda>old new s. (Inl (failure ErrCategoryExists), s)))
           (category_request (Inr ''news'') (Inr ''sport'')) (world_of empty_store))
      = Response StatusNotFound (errorResponse ''CategoryNotFound'')"
    using error_status_mapping
      [where w = "world_of empty_store" and e = "failure ErrCategoryNotFound" and d = empty_store
         and c = "category_request (Inr ''news'') (Inr ''sport'')"
         and old = "''news''" and new = "''sport''"
         and UpdateCategory = "UpdateCategory_spec (\<lambda>old new s. (Inl (failure ErrCategoryExists), s))",
       THEN conjunct2, THEN conjunct2, THEN conjunct2, THEN conjunct2, THEN conjunct2,
       THEN conjunct2, THEN conjunct2, THEN conjunct2, THEN conjunct2, THEN conjunct2,
       THEN conjunct1]
    by (simp add: srv_simps demo_simps Atoi_simps errors_Is_def IsEmpty_def)
  have w14: "fst (updateCategory (UpdateCategory_spec (\<lambda>old new s. (Inl (failure ErrCategoryExists), s)))
           (category_request (Inr ''news'') (Inr ''sport'')) (world_of two_category_store))
      = Response StatusInternalServerError (errorResponse ''CategoryAlreadyExists'')"
    using error_status_mapping
      [where w = "world_of two_category_store" and e = "failure ErrCategoryExists" and d = two_category_store
         and c = "category_request (Inr ''news'') (Inr ''sport'')"
         and old = "''news''" and new = "''sport''"
         and UpdateCategory = "UpdateCategory_spec (\<lambda>old new s. (Inl (failure ErrCategoryExists), s))",
       THEN conjunct2, THEN conjunct2, THEN conjunct2, THEN conjunct2, THEN conjunct2,
       THEN conjunct2, THEN conjunct2, THEN conjunct2, THEN conjunct2, THEN conjunct2,
       THEN conjunct1]
    by (simp add: srv_simps demo_simps Atoi_simps errors_Is_def IsEmpty_def)
  have w15: "fst (deleteCategory (DeleteCategory_spec (\<lambda>t s. (None, s)))
           (category_request (Inr ''news'') (Inr ''sport'')) (world_of empty_store))
      = Response StatusNotFound (errorResponse ''CategoryNotFound'')"
    using error_status_mapping
      [where w = "world_of empty_store" and e = "failure ErrCategoryNotFound" and d = empty_store
         and c = "category_request (Inr ''news'') (Inr ''sport'')" and old = "''news''"
         and DeleteCategory = "DeleteCategory_spec (\<lambda>t s. (None, s))",
       THEN conjunct2, THEN conjunct2, THEN conjunct2, THEN conjunct2, THEN conjunct2,
       THEN conjunct2, THEN conjunct2, THEN conjunct2, THEN conjunct2, THEN conjunct2,
       THEN conjunct2]
    by (simp add: srv_simps demo_simps Atoi_simps errors_Is_def IsEmpty_def)
  have w16: "fst (addCategory (\<lambda>c s. (Inl \<lparr>chain = [], Error = ''connection refused''\<rparr>, s))
           (request [] Map.empty (Inr \<lparr>Title = ''news''\<rparr>)) (world_of demo_store))
      = Response StatusInternalServerError (errorResponse ''connection refused'')"
    using error_status_mapping
      [where w = "world_of demo_store" and e = "\<lparr>chain = [], Error = ''connection refused''\<rparr>" and d = demo_store
         and cc = "request [] Map.empty (Inr \<lparr>Title = ''news''\<rparr>)" and t = "\<lparr>Title = ''news''\<rparr>"
         and AddCategory = "\<lambda>c s. (Inl \<lparr>chain = [], Error = ''connection refused''\<rparr>, s)",
       THEN conjunct1]
    by (simp add: srv_simps demo_simps Atoi_simps errors_Is_def IsEmpty_def)
  from w1 w2 w3 w4 w5 w6 w7 w8 w9 w10 w11 w12 w13 w14 w15 w16 show ?thesis
    by (intro conjI)
qed

subsection \<open>Failures and the answer to the caller\<close>

text \<open>
  Three failures that no error response answers. The error of parsing the id is dropped: a
  request to delete the Analytic ''abc'' is carried out on the Analytic with id 0 and
  answered with 204. The body \<^verbatim>\<open>null\<close> makes addAnalytic and updateAnalytic panic while
  binding. A role that is not a string makes getAnalyticWithWordsByPostID panic.
\<close>

theorem failures_without_an_answer:
  "snd (Atoi ''abc'') = Some ErrSyntax
   \<and> fst (deleteAnalytic DeleteAnalytic_spec (request ''abc'' Map.empty (Inl []))
          (world_of (run [OpAdd \<lparr>ID = 0, PostID = 7, metrics = []\<rparr>]
             (Store_init [\<lparr>post_id = 7, category_title = ''news'', public = True\<rparr>] [] 0))))
     = Response StatusNoContent NoBody
   \<and> fst (addAnalytic AddAnalytic_spec (request [] Map.empty (Inr None)) (world_of demo_store))
     = Panic
   \<and> fst (updateAnalytic UpdateAnalytic_spec (request ''1'' Map.empty (Inr None))
          (world_of demo_store))
     = Panic
   \<and> fst (getAnalyticWithWordsByPostID (GetAnalyticWithWords_spec (\<lambda>r ws. ws) (\<lambda>p. []))
          (request ''7'' [''role'' \<mapsto> AnyInt 1] (Inl [])) (world_of demo_store))
     = Panic"
  by (simp add: deleteAnalytic_def addAnalytic_def updateAnalytic_def
      getAnalyticWithWordsByPostID_def handler_simps srv_simps demo_simps Atoi_simps run_def)

text \<open>
  C7, as the handlers have it. On every path of every handler but three, a failure is
  answered with exactly one error response: a failure to bind the body, the URI or the
  query with 400 and the text of the binding error, before the service is called; an empty
  update with 400 and a missing role with 401, before the service is called; an error
  returned by the service with one response that carries the text of that error, under one
  of the statuses 400, 404, 409 and 500. The three paths are these. A failure to parse the
  id path parameter is not answered: updateAnalytic, deleteAnalytic and
  getAnalyticWithWordsByPostID see only the value that Atoi returns, so a request with an
  unparsable id is handled exactly as the request with the id 0. On the body \<^verbatim>\<open>null\<close>,
  addAnalytic and updateAnalytic panic while binding, and on a role that is not a string
  getAnalyticWithWordsByPostID panics; the service is not called and the handler sends no
  answer of its own. No handler panics on any other path.
\<close>

theorem failures_answered_once:
  "(BindJSON ca = Inl m \<longrightarrow>
      addAnalytic AddAnalytic ca w = (Response StatusBadRequest (errorResponse m), w))
   \<and> (BindJSON cu = Inl m \<longrightarrow>
      updateAnalytic UpdateAnalytic cu w = (Response StatusBadRequest (errorResponse m), w))
   \<and> (BindJSON cc = Inl m \<longrightarrow>
      addCategory AddCategory cc w = (Response StatusBadRequest (errorResponse m), w))
   \<and> (BindUri c = Inl m \<longrightarrow>
      updateCategory UpdateCategory c w = (Response StatusBadRequest (errorResponse m), w))
   \<and> (BindUri c = Inr old \<and> BindQuery c = Inl m \<longrightarrow>
      updateCategory UpdateCategory c w = (Response StatusBadRequest (errorResponse m), w))
   \<and> (BindUri c = Inl m \<longrightarrow>
      deleteCategory DeleteCategory c w = (Response StatusBadRequest (errorResponse m), w))
   \<and> (BindJSON cu = Inr (Some u) \<and> IsEmpty u \<longrightarrow>
      updateAnalytic UpdateAnalytic cu w
        = (Response StatusBadRequest (errorResponse ''analytic has no changes''), w))
   \<and> (Keys c ''role'' = None \<longrightarrow>
      getAnalyticWithWordsByPostID GetAnalyticWithWords c w
        = (Response StatusUnauthorized (errorResponse ''not found role''), w))
   \<and> (BindJSON ca = Inr (Some a) \<and> AddAnalytic a (db w) = (Inl e, d) \<longrightarrow>
      reports e (fst (addAnalytic AddAnalytic ca w)))
   \<and> (BindJSON cu = Inr (Some u) \<and> \<not> IsEmpty u
        \<and> UpdateAnalytic (fst (Atoi (Param cu ''id''))) u (db w) = (Inl e, d) \<longrightarrow>
      reports e (fst (updateAnalytic UpdateAnalytic cu w)))
   \<and> (DeleteAnalytic (fst (Atoi (Param c ''id''))) (db w) = (Some e, d) \<longrightarrow>
      reports e (fst (deleteAnalytic DeleteAnalytic c w)))
   \<and> (Keys c ''role'' = Some (AnyString r)
        \<and> GetAnalyticWithWords (fst (Atoi (Param c ''id''))) r (db w) = (Inl e, d) \<longrightarrow>
      reports e (fst (getAnalyticWithWordsByPostID GetAnalyticWithWords c w)))
   \<and> (GetCategoriesWithPublicPosts (db w) = (Inl e, d) \<longrightarrow>
      reports e (fst (getCategoriesWithPublicPosts GetCategoriesWithPublicPosts c w)))
   \<and> (GetCategoriesWithPosts (db w) = (Inl e, d) \<longrightarrow>
      reports e (fst (getCategoriesWithPosts GetCategoriesWithPosts c w)))
   \<and> (GetAllCategories (db w) = (Inl e, d) \<longrightarrow>
      reports e (fst (getAllCategories GetAllCategories c w)))
   \<and> (BindJSON cc = Inr t \<and> AddCategory t (db w) = (Inl e, d) \<longrightarrow>
      reports e (fst (addCategory AddCategory cc w)))
   \<and> (BindUri c = Inr old \<and> BindQuery c = Inr new
        \<and> UpdateCategory old new (db w) = (Inl e, d) \<longrightarrow>
      reports e (fst (updateCategory UpdateCategory c w)))
   \<and> (BindUri c = Inr old \<and> DeleteCategory old (db w) = (Some e, d) \<longrightarrow>
      reports e (fst (deleteCategory DeleteCategory c w)))
   \<and> (fst (Atoi (Param cu ''id'')) = fst (Atoi (Param cu' ''id'')) \<and> BindJSON cu = BindJSON cu'
        \<longrightarrow> updateAnalytic UpdateAnalytic cu w = updateAnalytic UpdateAnalytic cu' w)
   \<and> (fst (Atoi (Param c ''id'')) = fst (Atoi (Param c' ''id''))
        \<longrightarrow> deleteAnalytic DeleteAnalytic c w = deleteAnalytic DeleteAnalytic c' w)
   \<and> (fst (Atoi (Param c ''id'')) = fst (Atoi (Param c' ''id''))
        \<and> Keys c ''role'' = Keys c' ''role''
        \<longrightarrow> getAnalyticWithWordsByPostID GetAnalyticWithWords c w
            = getAnalyticWithWordsByPostID GetAnalyticWithWords c' w)
   \<and> (BindJSON ca = Inr None \<longrightarrow> addAnalytic AddAnalytic ca w = (Panic, w))
   \<and> (BindJSON cu = Inr None \<longrightarrow> updateAnalytic UpdateAnalytic cu w = (Panic, w))
   \<and> (Keys c ''role'' = Some v \<and> \<not> isString v \<longrightarrow>
      getAnalyticWithWordsByPostID GetAnalyticWithWords c w = (Panic, w))
   \<and> (fst (addAnalytic AddAnalytic ca w) = Panic) = (BindJSON ca = Inr None)
   \<and> (fst (updateAnalytic UpdateAnalytic cu w) = Panic) = (BindJSON cu = Inr None)
   \<and> (fst (getAnalyticWithWordsByPostID GetAnalyticWithWords c w) = Panic)
      = (case Keys c ''role'' of None \<Rightarrow> False | Some v \<Rightarrow> \<not> isString v)
   \<and> fst (deleteAnalytic DeleteAnalytic c w) \<noteq> Panic
   \<and> fst (getCategoriesWithPublicPosts GetCategoriesWithPublicPosts c w) \<noteq> Panic
   \<and> fst (getCategoriesWithPosts GetCategoriesWithPosts c w) \<noteq> Panic
   \<and> fst (getAllCategories GetAllCategories c w) \<noteq> Panic
   \<and> fst (addCategory AddCategory cc w) \<noteq> Panic
   \<and> fst (updateCategory UpdateCategory c w) \<noteq> Panic
   \<and> fst (deleteCategory DeleteCategory c w) \<noteq> Panic"
proof -
  have binds:
    "(BindJSON ca = Inl m \<longrightarrow>
        addAnalytic AddAnalytic ca w = (Response StatusBadRequest (errorResponse m), w))"
    "(BindJSON cu = Inl m \<longrightarrow>
        updateAnalytic UpdateAnalytic cu w = (Response StatusBadRequest (errorResponse m), w))"
    "(BindJSON cc = Inl m \<longrightarrow>
        addCategory AddCategory cc w = (Response StatusBadRequest (errorResponse m), w))"
    "(BindUri c = Inl m \<longrightarrow>
        updateCategory UpdateCategory c w = (Response StatusBadRequest (errorResponse m), w))"
    "(BindUri c = Inr old \<and> BindQuery c = Inl m \<longrightarrow>
        updateCategory UpdateCategory c w = (Response StatusBadRequest (errorResponse m), w))"
    "(BindUri c = Inl m \<longrightarrow>
        deleteCategory DeleteCategory c w = (Response StatusBadRequest (errorResponse m), w))"
    "(BindJSON cu = Inr (Some u) \<and> IsEmpty u \<longrightarrow>
        updateAnalytic UpdateAnalytic cu w
          = (Response StatusBadRequest (errorResponse ''analytic has no changes''), w))"
    "(Keys c ''role'' = None \<longrightarrow>
        getAnalyticWithWordsByPostID GetAnalyticWithWords c w
          = (Response StatusUnauthorized (errorResponse ''not found role''), w))"
    by (simp_all add: addAnalytic_def updateAnalytic_def addCategory_def updateCategory_def
        deleteCategory_def getAnalyticWithWordsByPostID_def)
  have srv:
    "(BindJSON ca = Inr (Some a) \<and> AddAnalytic a (db w) = (Inl e, d) \<longrightarrow>
        reports e (fst (addAnalytic AddAnalytic ca w)))"
    "(BindJSON cu = Inr (Some u) \<and> \<not> IsEmpty u
          \<and> UpdateAnalytic (fst (Atoi (Param cu ''id''))) u (db w) = (Inl e, d) \<longrightarrow>
        reports e (fst (updateAnalytic UpdateAnalytic cu w)))"
    "(DeleteAnalytic (fst (Atoi (Param c ''id''))) (db w) = (Some e, d) \<longrightarrow>
        reports e (fst (deleteAnalytic DeleteAnalytic c w)))"
    "(Keys c ''role'' = Some (AnyString r)
          \<and> GetAnalyticWithWords (fst (Atoi (Param c ''id''))) r (db w) = (Inl e, d) \<longrightarrow>
        reports e (fst (getAnalyticWithWordsByPostID GetAnalyticWithWords c w)))"
    "(GetCategoriesWithPublicPosts (db w) = (Inl e, d) \<longrightarrow>
        reports e (fst (getCategoriesWithPublicPosts GetCategoriesWithPublicPosts c w)))"
    "(GetCategoriesWithPosts (db w) = (Inl e, d) \<longrightarrow>
        reports e (fst (getCategoriesWithPosts GetCategoriesWithPosts c w)))"
    "(GetAllCategories (db w) = (Inl e, d) \<longrightarrow>
        reports e (fst (getAllCategories GetAllCategories c w)))"
    "(BindJSON cc = Inr t \<and> AddCategory t (db w) = (Inl e, d) \<longrightarrow>
        reports e (fst (addCategory AddCategory cc w)))"
    "(BindUri c = Inr old \<and> BindQuery c = Inr new
          \<and> UpdateCategory old new (db w) = (Inl e, d) \<longrightarrow>
        reports e (fst (updateCategory UpdateCategory c w)))"
    "(BindUri c = Inr old \<and> DeleteCategory old (db w) = (Some e, d) \<longrightarrow>
        reports e (fst (deleteCategory DeleteCategory c w)))"
    by (simp_all add: addAnalytic_error updateAnalytic_error deleteAnalytic_error
        getAnalyticWithWords_error getCategoriesWithPublicPosts_error
        getCategoriesWithPosts_error getAllCategories_error addCategory_error
        updateCategory_error deleteCategory_error reports_def)
  have ids:
    "(fst (Atoi (Param cu ''id'')) = fst (Atoi (Param cu' ''id'')) \<and> BindJSON cu = BindJSON cu'
          \<longrightarrow> updateAnalytic UpdateAnalytic cu w = updateAnalytic UpdateAnalytic cu' w)"
    "(fst (Atoi (Param c ''id'')) = fst (Atoi (Param c' ''id''))
          \<longrightarrow> deleteAnalytic DeleteAnalytic c w = deleteAnalytic DeleteAnalytic c' w)"
    "(fst (Atoi (Param c ''id'')) = fst (Atoi (Param c' ''id''))
          \<and> Keys c ''role'' = Keys c' ''role''
          \<longrightarrow> getAnalyticWithWordsByPostID GetAnalyticWithWords c w
              = getAnalyticWithWordsByPostID GetAnalyticWithWords c' w)"
    by (simp_all add: updateAnalytic_def deleteAnalytic_def getAnalyticWithWordsByPostID_def)
  have panics:
    "(BindJSON ca = Inr None \<longrightarrow> addAnalytic AddAnalytic ca w = (Panic, w))"
    "(BindJSON cu = Inr None \<longrightarrow> updateAnalytic UpdateAnalytic cu w = (Panic, w))"
    "(Keys c ''role'' = Some v \<and> \<not> isString v \<longrightarrow>
        getAnalyticWithWordsByPostID GetAnalyticWithWords c w = (Panic, w))"
    by (cases v; simp add: addAnalytic_def updateAnalytic_def
        getAnalyticWithWordsByPostID_def)+
  have only:
    "(fst (addAnalytic AddAnalytic ca w) = Panic) = (BindJSON ca = Inr None)"
    "(fst (updateAnalytic UpdateAnalytic cu w) = Panic) = (BindJSON cu = Inr None)"
    "(fst (getAnalyticWithWordsByPostID GetAnalyticWithWords c w) = Panic)
        = (case Keys c ''role'' of None \<Rightarrow> False | Some v \<Rightarrow> \<not> isString v)"
    "fst (deleteAnalytic DeleteAnalytic c w) \<noteq> Panic"
    "fst (getCategoriesWithPublicPosts GetCategoriesWithPublicPosts c w) \<noteq> Panic"
    "fst (getCategoriesWithPosts GetCategoriesWithPosts c w) \<noteq> Panic"
    "fst (getAllCategories GetAllCategories c w) \<noteq> Panic"
    "fst (addCategory AddCategory cc w) \<noteq> Panic"
    "fst (updateCategory UpdateCategory c w) \<noteq> Panic"
    "fst (deleteCategory DeleteCategory c w) \<noteq> Panic"
    by (auto simp: addAnalytic_def updateAnalytic_def deleteAnalytic_def getAnalyticWithWordsByPostID_def
        getCategoriesWithPublicPosts_def getCategoriesWithPosts_def getAllCategories_def
        addCategory_def updateCategory_def deleteCategory_def
        handler_simps split: sum.splits prod.splits option.splits any.splits)
  from binds srv ids panics only show ?thesis
    by blast
qed

theorem failures_answered_once_witness:
  "addAnalytic AddAnalytic_spec (request [] Map.empty (Inl ''unexpected EOF'')) (world_of demo_store)
      = (Response StatusBadRequest (errorResponse ''unexpected EOF''), world_of demo_store)
   \<and> updateAnalytic UpdateAnalytic_spec (request ''1'' Map.empty (Inl ''unexpected EOF''))
        (world_of demo_store)
      = (Response StatusBadRequest (errorResponse ''unexpected EOF''), world_of demo_store)
   \<and> addCategory AddCategory_spec (request [] Map.empty (Inl ''unexpected EOF'')) (world_of demo_store)
      = (Response StatusBadRequest (errorResponse ''unexpected EOF''), world_of demo_store)
   \<and> updateCategory (UpdateCategory_spec (\<lambda>old new s. (Inl (failure ErrCategoryExists), s)))
        (category_request (Inl ''bad uri'') (Inr ''sport'')) (world_of demo_store)
      = (Response StatusBadRequest (errorResponse ''bad uri''), world_of demo_store)
   \<and> updateCategory (UpdateCategory_spec (\<lambda>old new s. (Inl (failure ErrCategoryExists), s)))
        (category_request (Inr ''news'') (Inl ''bad query'')) (world_of demo_store)
      = (Response StatusBadRequest (errorResponse ''bad query''), world_of demo_store)
   \<and> deleteCategory (DeleteCategory_spec (\<lambda>t s. (None, s)))
        (category_request (Inl ''bad uri'') (Inr ''sport'')) (world_of demo_store)
      = (Response StatusBadRequest (errorResponse ''bad uri''), world_of demo_store)
   \<and> updateAnalytic UpdateAnalytic_spec
        (request ''1'' Map.empty (Inr (Some \<lparr>PostID_opt = None, metrics_opt = []\<rparr>))) (world_of demo_store)
      = (Response StatusBadRequest (errorResponse ''analytic has no changes''), world_of demo_store)
   \<and> getAnalyticWithWordsByPostID (GetAnalyticWithWords_spec (\<lambda>r ws. ws) (\<lambda>p. []))
        (request ''7'' Map.empty (Inl [])) (world_of demo_store)
      = (Response StatusUnauthorized (errorResponse ''not found role''), world_of demo_store)
   \<and> reports (failure ErrPostIDExist)
        (fst (addAnalytic AddAnalytic_spec
           (request [] Map.empty (Inr (Some \<lparr>ID = 0, PostID = 7, metrics = []\<rparr>))) (world_of demo_store)))
   \<and> reports (failure ErrAnalyticNotFound)
        (fst (updateAnalytic UpdateAnalytic_spec
           (request ''99'' Map.empty (Inr (Some \<lparr>PostID_opt = Some 7, metrics_opt = []\<rparr>))) (world_of demo_store)))
   \<and> reports (failure ErrAnalyticNotFound)
        (fst (deleteAnalytic DeleteAnalytic_spec (request ''99'' Map.empty (Inl []))
           (world_of demo_store)))
   \<and> reports (failure ErrAnalyticNotFound)
        (fst (getAnalyticWithWordsByPostID (GetAnalyticWithWords_spec (\<lambda>r ws. ws) (\<lambda>p. []))
           (request ''99'' [''role'' \<mapsto> AnyString ''admin''] (Inl [])) (world_of demo_store)))
   \<and> reports (failure ErrPostNotFound)
        (fst (getCategoriesWithPublicPosts GetCategoriesWithPublicPosts_spec
           (category_request (Inr ''news'') (Inr ''sport'')) (world_of empty_store)))
   \<and> reports (failure ErrPostNotFound)
        (fst (getCategoriesWithPosts GetCategoriesWithPosts_spec
           (category_request (Inr ''news'') (Inr ''sport'')) (world_of empty_store)))
   \<and> reports (failure ErrCategoryNotFound)
        (fst (getAllCategories GetAllCategories_spec
           (category_request (Inr ''news'') (Inr ''sport'')) (world_of empty_store)))
   \<and> reports (failure ErrCategoryExists)
        (fst (addCategory AddCategory_spec (request [] Map.empty (Inr \<lparr>Title = ''news''\<rparr>))
           (world_of demo_store)))
   \<and> reports (failure ErrCategoryNotFound)
        (fst (updateCategory (UpdateCategory_spec (\<lambda>old new s. (Inl (failure ErrCategoryExists), s)))
           (category_request (Inr ''news'') (Inr ''sport'')) (world_of empty_store)))
   \<and> reports (failure ErrCategoryNotFound)
        (fst (deleteCategory (DeleteCategory_spec (\<lambda>t s. (None, s)))
           (category_request (Inr ''news'') (Inr ''sport'')) (world_of empty_store)))
   \<and> updateAnalytic UpdateAnalytic_spec
        (request ''abc'' Map.empty (Inr (Some \<lparr>PostID_opt = Some 7, metrics_opt = []\<rparr>))) (world_of demo_store)
      = updateAnalytic UpdateAnalytic_spec
          (request ''0'' Map.empty (Inr (Some \<lparr>PostID_opt = Some 7, metrics_opt = []\<rparr>))) (world_of demo_store)
   \<and> deleteAnalytic DeleteAnalytic_spec (request ''abc'' Map.empty (Inl [])) (world_of demo_store)
      = deleteAnalytic DeleteAnalytic_spec (request ''0'' Map.empty (Inl [])) (world_of demo_store)
   \<and> getAnalyticWithWordsByPostID (GetAnalyticWithWords_spec (\<lambda>r ws. ws) (\<lambda>p. []))
        (request ''abc'' [''role'' \<mapsto> AnyString ''admin''] (Inl [])) (world_of demo_store)
      = getAnalyticWithWordsByPostID (GetAnalyticWithWords_spec (\<lambda>r ws. ws) (\<lambda>p. []))
          (request ''0'' [''role'' \<mapsto> AnyString ''admin''] (Inl [])) (world_of demo_store)
   \<and> addAnalytic AddAnalytic_spec (request [] Map.empty (Inr None)) (world_of demo_store)
      = (Panic, world_of demo_store)
   \<and> updateAnalytic UpdateAnalytic_spec (request ''1'' Map.empty (Inr None)) (world_of demo_store)
      = (Panic, world_of demo_store)
   \<and> getAnalyticWithWordsByPostID (GetAnalyticWithWords_spec (\<lambda>r ws. ws) (\<lambda>p. []))
        (request ''7'' [''role'' \<mapsto> AnyInt 1] (Inl [])) (world_of demo_store)
      = (Panic, world_of demo_store)"
proof -
  have w1: "addAnalytic AddAnalytic_spec (request [] Map.empty (Inl ''unexpected EOF'')) (world_of demo_store)
      = (Response StatusBadRequest (errorResponse ''unexpected EOF''), world_of demo_store)"
    using failures_answered_once
      [where w = "world_of demo_store" and ca = "request [] Map.empty (Inl ''unexpected EOF'')" and m = "''unexpected EOF''"
         and AddAnalytic = AddAnalytic_spec,
       THEN conjunct1]
    by (simp add: srv_simps demo_simps Atoi_simps errors_Is_def IsEmpty_def)
  have w2: "updateAnalytic UpdateAnalytic_spec (request ''1'' Map.empty (Inl ''unexpected EOF''))
        (world_of demo_store)
      = (Response StatusBadRequest (errorResponse ''unexpected EOF''), world_of demo_store)"
    using failures_answered_once
      [where w = "world_of demo_store" and cu = "request ''1'' Map.empty (Inl ''unexpected EOF'')" and m = "''unexpected EOF''"
         and UpdateAnalytic = UpdateAnalytic_spec,
       THEN conjunct2, THEN conjunct1]
    by (simp add: srv_simps demo_simps Atoi_simps errors_Is_def IsEmpty_def)
  have w3: "addCategory AddCategory_spec (request [] Map.empty (Inl ''unexpected EOF'')) (world_of demo_store)
      = (Response StatusBadRequest (errorResponse ''unexpected EOF''), world_of demo_store)"
    using failures_answered_once
      [where w = "world_of demo_store" and cc = "request [] Map.empty (Inl ''unexpected EOF'')" and m = "''unexpected EOF''"
         and AddCategory = AddCategory_spec,
       THEN conjunct2, THEN conjunct2, THEN conjunct1]
    by (simp add: srv_simps demo_simps Atoi_simps errors_Is_def IsEmpty_def)
  have w4: "updateCategory (UpdateCategory_spec (\<lambda>old new s. (Inl (failure ErrCategoryExists), s)))
        (category_request (Inl ''bad uri'') (Inr ''sport'')) (world_of demo_store)
      = (Response StatusBadRequest (errorResponse ''bad uri''), world_of demo_store)"
    using failures_answered_once
      [where w = "world_of demo_store" and c = "category_request (Inl ''bad uri'') (Inr ''sport'')" and m = "''bad uri''"
         and UpdateCategory = "UpdateCategory_spec (\<lambda>old new s. (Inl (failure ErrCategoryExists), s))",
       THEN conjunct2, THEN conjunct2, THEN conjunct2, THEN conjunct1]
    by (simp add: srv_simps demo_simps Atoi_simps errors_Is_def IsEmpty_def)
  have w5: "updateCategory (UpdateCategory_spec (\<lambda>old new s. (Inl (failure ErrCategoryExists), s)))
        (category_request (Inr ''news'') (Inl ''bad query'')) (world_of demo_store)
      = (Response StatusBadRequest (errorResponse ''bad query''), world_of demo_store)"
    using failures_answered_once
      [where w = "world_of demo_store" and c = "category_request (Inr ''news'') (Inl ''bad query'')" and m = "''bad query''"
         and old = "''news''" and UpdateCategory = "UpdateCategory_spec (\<lambda>old new s. (Inl (failure ErrCategoryExists), s))",
       THEN conjunct2, THEN conjunct2, THEN conjunct2, THEN conjunct2, THEN conjunct1]
    by (simp add: srv_simps demo_simps Atoi_simps errors_Is_def IsEmpty_def)
  have w6: "deleteCategory (DeleteCategory_spec (\<lambda>t s. (None, s)))
        (category_request (Inl ''bad uri'') (Inr ''sport'')) (world_of demo_store)
      = (Response StatusBadRequest (errorResponse ''bad uri''), world_of demo_store)"
    using failures_answered_once
      [where w = "world_of demo_store" and c = "category_request (Inl ''bad uri'') (Inr ''sport'')" and m = "''bad uri''"
         and DeleteCategory = "DeleteCategory_spec (\<lambda>t s. (None, s))",
       THEN conjunct2, THEN conjunct2, THEN conjunct2, THEN conjunct2, THEN conjunct2,
       THEN conjunct1]
    by (simp add: srv_simps demo_simps Atoi_simps errors_Is_def IsEmpty_def)
  have w7: "updateAnalytic UpdateAnalytic_spec
        (request ''1'' Map.empty (Inr (Some \<lparr>PostID_opt = None, metrics_opt = []\<rparr>))) (world_of demo_store)
      = (Response StatusBadRequest (errorResponse ''analytic has no changes''), world_of demo_store)"
    using failures_answered_once
      [where w = "world_of demo_store" and cu = "request ''1'' Map.empty (Inr (Some \<lparr>PostID_opt = None, metrics_opt = []\<rparr>))"
         and u = "\<lparr>PostID_opt = None, metrics_opt = []\<rparr>" and UpdateAnalytic = UpdateAnalytic_spec,
       THEN conjunct2, THEN conjunct2, THEN conjunct2, THEN conjunct2, THEN conjunct2,
       THEN conjunct2, THEN conjunct1]
    by (simp add: srv_simps demo_simps Atoi_simps errors_Is_def IsEmpty_def)
  have w8: "getAnalyticWithWordsByPostID (GetAnalyticWithWords_spec (\<lambda>r ws. ws) (\<lambda>p. []))
        (request ''7'' Map.empty (Inl [])) (world_of demo_store)
      = (Response StatusUnauthorized (errorResponse ''not found role''), world_of demo_store)"
    using failures_answered_once
      [where w = "world_of demo_store" and c = "request ''7'' Map.empty (Inl [])"
         and GetAnalyticWithWords = "GetAnalyticWithWords_spec (\<lambda>r ws. ws) (\<lambda>p. [])",
       THEN conjunct2, THEN conjunct2, THEN conjunct2, THEN conjunct2, THEN conjunct2,
       THEN conjunct2, THEN conjunct2, THEN conjunct1]
    by (simp add: srv_simps demo_simps Atoi_simps errors_Is_def IsEmpty_def)
  have w9: "reports (failure ErrPostIDExist)
        (fst (addAnalytic AddAnalytic_spec
           (request [] Map.empty (Inr (Some \<lparr>ID = 0, PostID = 7, metrics = []\<rparr>))) (world_of demo_store)))"
    using failures_answered_once
      [where w = "world_of demo_store" and e = "failure ErrPostIDExist" and d = demo_store
         and ca = "request [] Map.empty (Inr (Some \<lparr>ID = 0, PostID = 7, metrics = []\<rparr>))"
         and a = "\<lparr>ID = 0, PostID = 7, metrics = []\<rparr>" and AddAnalytic = AddAnalytic_spec,
       THEN conjunct2, THEN conjunct2, THEN conjunct2, THEN conjunct2, THEN conjunct2,
       THEN conjunct2, THEN conjunct2, THEN conjunct2, THEN conjunct1]
    by (simp add: srv_simps demo_simps Atoi_simps errors_Is_def IsEmpty_def)
  have w10: "reports (failure ErrAnalyticNotFound)
        (fst (updateAnalytic UpdateAnalytic_spec
           (request ''99'' Map.empty (Inr (Some \<lparr>PostID_opt = Some 7, metrics_opt = []\<rparr>))) (world_of demo_store)))"
    using failures_answered_once
      [where w = "world_of demo_store" and e = "failure ErrAnalyticNotFound" and d = demo_store
         and cu = "request ''99'' Map.empty (Inr (Some \<lparr>PostID_opt = Some 7, metrics_opt = []\<rparr>))"
         and u = "\<lparr>PostID_opt = Some 7, metrics_opt = []\<rparr>" and UpdateAnalytic = UpdateAnalytic_spec,
       THEN conjunct2, THEN conjunct2, THEN conjunct2, THEN conjunct2, THEN conjunct2,
       THEN conjunct2, THEN conjunct2, THEN conjunct2, THEN conjunct2, THEN conjunct1]
    by (simp add: srv_simps demo_simps Atoi_simps errors_Is_def IsEmpty_def)
  have w11: "reports (failure ErrAnalyticNotFound)
        (fst (deleteAnalytic DeleteAnalytic_spec (request ''99'' Map.empty (Inl []))
           (world_of demo_store)))"
    using failures_answered_once
      [where w = "world_of demo_store" and e = "failure ErrAnalyticNotFound" and d = demo_store
         and c = "request ''99'' Map.empty (Inl [])" and DeleteAnalytic = DeleteAnalytic_spec,
       THEN conjunct2, THEN conjunct2, THEN conjunct2, THEN conjunct2, THEN conjunct2,
       THEN conjunct2, THEN conjunct2, THEN conjunct2, THEN conjunct2, THEN conjunct2,
       THEN conjunct1]
    by (simp add: srv_simps demo_simps Atoi_simps errors_Is_def IsEmpty_def)
  have w12: "reports (failure ErrAnalyticNotFound)
        (fst (getAnalyticWithWordsByPostID (GetAnalyticWithWords_spec (\<lambda>r ws. ws) (\<lambda>p. []))
           (request ''99'' [''role'' \<mapsto> AnyString ''admin''] (Inl [])) (world_of demo_store)))"
    using failures_answered_once
      [where w = "world_of demo_store" and e = "failure ErrAnalyticNotFound" and d = demo_store
         and c = "request ''99'' [''role'' \<mapsto> AnyString ''admin''] (Inl [])" and r = "''admin''"
         and GetAnalyticWithWords = "GetAnalyticWithWords_spec (\<lambda>r ws. ws) (\<lambda>p. [])",
       THEN conjunct2, THEN conjunct2, THEN conjunct2, THEN conjunct2, THEN conjunct2,
       THEN conjunct2, THEN conjunct2, THEN conjunct2, THEN conjunct2, THEN conjunct2,
       THEN conjunct2, THEN conjunct1]
    by (simp add: srv_simps demo_simps Atoi_simps errors_Is_def IsEmpty_def)
  have w13: "reports (failure ErrPostNotFound)
        (fst (getCategoriesWithPublicPosts GetCategoriesWithPublicPosts_spec
           (category_request (Inr ''news'') (Inr ''sport'')) (world_of empty_store)))"
    using failures_answered_once
      [where w = "world_of empty_store" and e = "failure ErrPostNotFound" and d = empty_store
         and c = "category_request (Inr ''news'') (Inr ''sport'')"
         and GetCategoriesWithPublicPosts = GetCategoriesWithPublicPosts_spec,
       THEN conjunct2, THEN conjunct2, THEN conjunct2, THEN conjunct2, THEN conjunct2,
       THEN conjunct2, THEN conjunct2, THEN conjunct2, THEN conjunct2, THEN conjunct2,
       THEN conjunct2, THEN conjunct2, THEN conjunct1]
    by (simp add: srv_simps demo_simps Atoi_simps errors_Is_def IsEmpty_def)
  have w14: "reports (failure ErrPostNotFound)
        (fst (getCategoriesWithPosts GetCategoriesWithPosts_spec
           (category_request (Inr ''news'') (Inr ''sport'')) (world_of empty_store)))"
    using failures_answered_once
      [where w = "world_of empty_store" and e = "failure ErrPostNotFound" and d = empty_store
         and c = "category_request (Inr ''news'') (Inr ''sport'')"
         and GetCategoriesWithPosts = GetCategoriesWithPosts_spec,
       THEN conjunct2, THEN conjunct2, THEN conjunct2, THEN conjunct2, THEN conjunct2,
       THEN conjunct2, THEN conjunct2, THEN conjunct2, THEN conjunct2, THEN conjunct2,
       THEN conjunct2, THEN conjunct2, THEN conjunct2, THEN conjunct1]
    by (simp add: srv_simps demo_simps Atoi_simps errors_Is_def IsEmpty_def)
  have w15: "reports (failure ErrCategoryNotFound)
        (fst (getAllCategories GetAllCategories_spec
           (category_request (Inr ''news'') (Inr ''sport'')) (world_of empty_store)))"
    using failures_answered_once
      [where w = "world_of empty_store" and e = "failure ErrCategoryNotFound" and d = empty_store
         and c = "category_request (Inr ''news'') (Inr ''sport'')"
         and GetAllCategories = GetAllCategories_spec,
       THEN conjunct2, THEN conjunct2, THEN conjunct2, THEN conjunct2, THEN conjunct2,
       THEN conjunct2, THEN conjunct2, THEN conjunct2, THEN conjunct2, THEN conjunct2,
       THEN conjunct2, THEN conjunct2, THEN conjunct2, THEN conjunct2, THEN conjunct1]
    by (simp add: srv_simps demo_simps Atoi_simps errors_Is_def IsEmpty_def)
  have w16: "reports (failure ErrCategoryExists)
        (fst (addCategory AddCategory_spec (request [] Map.empty (Inr \<lparr>Title = ''news''\<rparr>))
           (world_of demo_store)))"
    using failures_answered_once
      [where w = "world_of demo_store" and e = "failure ErrCategoryExists" and d = demo_store
         and cc = "request [] Map.empty (Inr \<lparr>Title = ''news''\<rparr>)" and t = "\<lparr>Title = ''news''\<rparr>"
         and AddCategory = AddCategory_spec,
       THEN conjunct2, THEN conjunct2, THEN conjunct2, THEN conjunct2, THEN conjunct2,
       THEN conjunct2, THEN conjunct2, THEN conjunct2, THEN conjunct2, THEN conjunct2,
       THEN conjunct2, THEN conjunct2, THEN conjunct2, THEN conjunct2, THEN conjunct2,
       THEN conjunct1]
    by (simp add: srv_simps demo_simps Atoi_simps errors_Is_def IsEmpty_def)
  have w17: "reports (failure ErrCategoryNotFound)
        (fst (updateCategory (UpdateCategory_spec (\<lambda>old new s. (Inl (failure ErrCategoryExists), s)))
           (category_request (Inr ''news'') (Inr ''sport'')) (world_of empty_store)))"
    using failures_answered_once
      [where w = "world_of empty_store" and e = "failure ErrCategoryNotFound" and d = empty_store
         and c = "category_request (Inr ''news'') (Inr ''sport'')"
         and old = "''news''" and new = "''sport''"
         and UpdateCategory = "UpdateCategory_spec (\<lambda>old new s. (Inl (failure ErrCategoryExists), s))",
       THEN conjunct2, THEN conjunct2, THEN conjunct2, THEN conjunct2, THEN conjunct2,
       THEN conjunct2, THEN conjunct2, THEN conjunct2, THEN conjunct2, THEN conjunct2,
       THEN conjunct2, THEN conjunct2, THEN conjunct2, THEN conjunct2, THEN conjunct2,
       THEN conjunct2, THEN conjunct1]
    by (simp add: srv_simps demo_simps Atoi_simps errors_Is_def IsEmpty_def)
  have w18: "reports (failure ErrCategoryNotFound)
        (fst (deleteCategory (DeleteCategory_spec (\<lambda>t s. (None, s)))
           (category_request (Inr ''news'') (Inr ''sport'')) (world_of empty_store)))"
    using failures_answered_once
      [where w = "world_of empty_store" and e = "failure ErrCategoryNotFound" and d = empty_store
         and c = "category_request (Inr ''news'') (Inr ''sport'')" and old = "''news''"
         and DeleteCategory = "DeleteCategory_spec (\<lambda>t s. (None, s))",
       THEN conjunct2, THEN conjunct2, THEN conjunct2, THEN conjunct2, THEN conjunct2,
       THEN conjunct2, THEN conjunct2, THEN conjunct2, THEN conjunct2, THEN conjunct2,
       THEN conjunct2, THEN conjunct2, THEN conjunct2, THEN conjunct2, THEN conjunct2,
       THEN conjunct2, THEN conjunct2, THEN conjunct1]
    by (simp add: srv_simps demo_simps Atoi_simps errors_Is_def IsEmpty_def)
  have w19: "updateAnalytic UpdateAnalytic_spec
        (request ''abc'' Map.empty (Inr (Some \<lparr>PostID_opt = Some 7, metrics_opt = []\<rparr>))) (world_of demo_store)
      = updateAnalytic UpdateAnalytic_spec
          (request ''0'' Map.empty (Inr (Some \<lparr>PostID_opt = Some 7, metrics_opt = []\<rparr>))) (world_of demo_store)"
    using failures_answered_once
      [where w = "world_of demo_store" and cu = "request ''abc'' Map.empty (Inr (Some \<lparr>PostID_opt = Some 7, metrics_opt = []\<rparr>))"
         and cu' = "request ''0'' Map.empty (Inr (Some \<lparr>PostID_opt = Some 7, metrics_opt = []\<rparr>))"
         and UpdateAnalytic = UpdateAnalytic_spec,
       THEN conjunct2, THEN conjunct2, THEN conjunct2, THEN conjunct2, THEN conjunct2,
       THEN conjunct2, THEN conjunct2, THEN conjunct2, THEN conjunct2, THEN conjunct2,
       THEN conjunct2, THEN conjunct2, THEN conjunct2, THEN conjunct2, THEN conjunct2,
       THEN conjunct2, THEN conjunct2, THEN conjunct2, THEN conjunct1]
    by (simp add: srv_simps demo_simps Atoi_simps errors_Is_def IsEmpty_def)
  have w20: "deleteAnalytic DeleteAnalytic_spec (request ''abc'' Map.empty (Inl [])) (world_of demo_store)
      = deleteAnalytic DeleteAnalytic_spec (request ''0'' Map.empty (Inl [])) (world_of demo_store)"
    using failures_answered_once
      [where w = "world_of demo_store" and c = "request ''abc'' Map.empty (Inl [])"
         and c' = "request ''0'' Map.empty (Inl [])" and DeleteAnalytic = DeleteAnalytic_spec,
       THEN conjunct2, THEN conjunct2, THEN conjunct2, THEN conjunct2, THEN conjunct2,
       THEN conjunct2, THEN conjunct2, THEN conjunct2, THEN conjunct2, THEN conjunct2,
       THEN conjunct2, THEN conjunct2, THEN conjunct2, THEN conjunct2, THEN conjunct2,
       THEN conjunct2, THEN conjunct2, THEN conjunct2, THEN conjunct2, THEN conjunct1]
    by (simp add: srv_simps demo_simps Atoi_simps errors_Is_def IsEmpty_def)
  have w21: "getAnalyticWithWordsByPostID (GetAnalyticWithWords_spec (\<lambda>r ws. ws) (\<lambda>p. []))
        (request ''abc'' [''role'' \<mapsto> AnyString ''admin''] (Inl [])) (world_of demo_store)
      = getAnalyticWithWordsByPostID (GetAnalyticWithWords_spec (\<lambda>r ws. ws) (\<lambda>p. []))
          (request ''0'' [''role'' \<mapsto> AnyString ''admin''] (Inl [])) (world_of demo_store)"
    using failures_answered_once
      [where w = "world_of demo_store" and c = "request ''abc'' [''role'' \<mapsto> AnyString ''admin''] (Inl [])"
         and c' = "request ''0'' [''role'' \<mapsto> AnyString ''admin''] (Inl [])"
         and GetAnalyticWithWords = "GetAnalyticWithWords_spec (\<lambda>r ws. ws) (\<lambda>p. [])",
       THEN conjunct2, THEN conjunct2, THEN conjunct2, THEN conjunct2, THEN conjunct2,
       THEN conjunct2, THEN conjunct2, THEN conjunct2, THEN conjunct2, THEN conjunct2,
       THEN conjunct2, THEN conjunct2, THEN conjunct2, THEN conjunct2, THEN conjunct2,
       THEN conjunct2, THEN conjunct2, THEN conjunct2, THEN conjunct2, THEN conjunct2,
       THEN conjunct1]
    by (simp add: srv_simps demo_simps Atoi_simps errors_Is_def IsEmpty_def)
  have w22: "addAnalytic AddAnalytic_spec (request [] Map.empty (Inr None)) (world_of demo_store)
      = (Panic, world_of demo_store)"
    using failures_answered_once
      [where w = "world_of demo_store" and ca = "request [] Map.empty (Inr None)" and AddAnalytic = AddAnalytic_spec,
       THEN conjunct2, THEN conjunct2, THEN conjunct2, THEN conjunct2, THEN conjunct2,
       THEN conjunct2, THEN conjunct2, THEN conjunct2, THEN conjunct2, THEN conjunct2,
       THEN conjunct2, THEN conjunct2, THEN conjunct2, THEN conjunct2, THEN conjunct2,
       THEN conjunct2, THEN conjunct2, THEN conjunct2, THEN conjunct2, THEN conjunct2,
       THEN conjunct2, THEN conjunct1]
    by (simp add: srv_simps demo_simps Atoi_simps errors_Is_def IsEmpty_def)
  have w23: "updateAnalytic UpdateAnalytic_spec (request ''1'' Map.empty (Inr None)) (world_of demo_store)
      = (Panic, world_of demo_store)"
    using failures_answered_once
      [where w = "world_of demo_store" and cu = "request ''1'' Map.empty (Inr None)"
         and UpdateAnalytic = UpdateAnalytic_spec,
       THEN conjunct2, THEN conjunct2, THEN conjunct2, THEN conjunct2, THEN conjunct2,
       THEN conjunct2, THEN conjunct2, THEN conjunct2, THEN conjunct2, THEN conjunct2,
       THEN conjunct2, THEN conjunct2, THEN conjunct2, THEN conjunct2, THEN conjunct2,
       THEN conjunct2, THEN conjunct2, THEN conjunct2, THEN conjunct2, THEN conjunct2,
       THEN conjunct2, THEN conjunct2, THEN conjunct1]
    by (simp add: srv_simps demo_simps Atoi_simps errors_Is_def IsEmpty_def)
  have w24: "getAnalyticWithWordsByPostID (GetAnalyticWithWords_spec (\<lambda>r ws. ws) (\<lambda>p. []))
        (request ''7'' [''role'' \<mapsto> AnyInt 1] (Inl [])) (world_of demo_store)
      = (Panic, world_of demo_store)"
    using failures_answered_once
      [where w = "world_of demo_store" and c = "request ''7'' [''role'' \<mapsto> AnyInt 1] (Inl [])" and v = "AnyInt 1"
         and GetAnalyticWithWords = "GetAnalyticWithWords_spec (\<lambda>r ws. ws) (\<lambda>p. [])",
       THEN conjunct2, THEN conjunct2, THEN conjunct2, THEN conjunct2, THEN conjunct2,
       THEN conjunct2, THEN conjunct2, THEN conjunct2, THEN conjunct2, THEN conjunct2,
       THEN conjunct2, THEN conjunct2, THEN conjunct2, THEN conjunct2, THEN conjunct2,
       THEN conjunct2, THEN conjunct2, THEN conjunct2, THEN conjunct2, THEN conjunct2,
       THEN conjunct2, THEN conjunct2, THEN conjunct2, THEN conjunct1]
    by (simp add: srv_simps demo_simps Atoi_simps errors_Is_def IsEmpty_def)
  from w1 w2 w3 w4 w5 w6 w7 w8 w9 w10 w11 w12 w13 w14 w15 w16 w17 w18 w19 w20 w21 w22 w23
    w24 show ?thesis
    by (intro conjI)
qed

subsection \<open>The operator log\<close>

text \<open>
  A named error that is logged, and an answer that is not generic. A rename that the
  service refuses with CategoryAlreadyExists reaches updateCategory, which does not name
  that error: it is written to the log and answered with 500. The body of a 500 answer is
  the text of the error itself, so two unexpected errors give two different answers.
\<close>

theorem named_error_logged_and_text_sent:
  "fst (updateCategory (UpdateCategory_spec (\<lambda>old new s. (Inl (failure ErrCategoryExists), s)))
          (category_request (Inr ''news'') (Inr ''sport'')) (world_of two_category_store))
     = Response StatusInternalServerError (errorResponse ''CategoryAlreadyExists'')
   \<and> logged (snd (updateCategory (UpdateCategory_spec (\<lambda>old new s. (Inl (failure ErrCategoryExists), s)))
          (category_request (Inr ''news'') (Inr ''sport'')) (world_of two_category_store)))
     = [''CategoryAlreadyExists'']
   \<and> fst (addCategory (\<lambda>c s. (Inl \<lparr>chain = [], Error = ''connection refused''\<rparr>, s))
          (request [] Map.empty (Inr \<lparr>Title = ''news''\<rparr>)) (world_of demo_store))
     = Response StatusInternalServerError (errorResponse ''connection refused'')
   \<and> fst (addCategory (\<lambda>c s. (Inl \<lparr>chain = [], Error = ''context deadline exceeded''\<rparr>, s))
          (request [] Map.empty (Inr \<lparr>Title = ''news''\<rparr>)) (world_of demo_store))
     = Response StatusInternalServerError (errorResponse ''context deadline exceeded'')"
  by (simp add: updateCategory_def addCategory_def handler_simps srv_simps demo_simps
      errors_Is_def)

text \<open>
  C8, as the handlers have it. An error of the service that the handler names is returned
  to the caller under the status of its case, with its text as the body, and nothing is
  written to the operator log; the same holds for an empty update and a missing role, which
  are answered before the service is called. Every other error of the service, also a
  named domain error that this handler does not name, is written to the log once, with its
  text, and answered with 500 and the same text as the body. The service has been called
  once in both cases. A handler writes to the log exactly when it answers 500.
\<close>

theorem log_follows_handler_cases:
  "(BindJSON ca = Inr (Some a) \<and> AddAnalytic a (db w) = (Inl e, d) \<longrightarrow>
      addAnalytic AddAnalytic ca w =
        (Response (if errors_Is e ErrPostIDExist then StatusBadRequest
                  else if errors_Is e ErrAnalyticDependencyNotFound then StatusConflict
                  else StatusInternalServerError) (errorResponse (Error e)),
         w\<lparr>db := d, calls := calls w @ [AddAnalyticCall a],
             logged := logged w @
               (if errors_Is e ErrPostIDExist
                    \<or> errors_Is e ErrAnalyticDependencyNotFound then [] else [Error e])\<rparr>))
   \<and> (BindJSON cu = Inr (Some u) \<and> \<not> IsEmpty u
        \<and> UpdateAnalytic (fst (Atoi (Param cu ''id''))) u (db w) = (Inl e, d) \<longrightarrow>
      updateAnalytic UpdateAnalytic cu w =
        (Response (if errors_Is e ErrPostIDExist then StatusBadRequest
                  else if errors_Is e ErrAnalyticNotFound then StatusNotFound
                  else if errors_Is e ErrAnalyticDependencyNotFound then StatusConflict
                  else StatusInternalServerError) (errorResponse (Error e)),
         w\<lparr>db := d, calls := calls w @ [UpdateAnalyticCall (fst (Atoi (Param cu ''id''))) u],
             logged := logged w @
               (if errors_Is e ErrPostIDExist
                    \<or> errors_Is e ErrAnalyticNotFound
                    \<or> errors_Is e ErrAnalyticDependencyNotFound then [] else [Error e])\<rparr>))
   \<and> (DeleteAnalytic (fst (Atoi (Param c ''id''))) (db w) = (Some e, d) \<longrightarrow>
      deleteAnalytic DeleteAnalytic c w =
        (Response (if errors_Is e ErrAnalyticNotFound then StatusNotFound
                  else StatusInternalServerError) (errorResponse (Error e)),
         w\<lparr>db := d, calls := calls w @ [DeleteAnalyticCall (fst (Atoi (Param c ''id'')))],
             logged := logged w @
               (if errors_Is e ErrAnalyticNotFound then [] else [Error e])\<rparr>))
   \<and> (Keys c ''role'' = Some (AnyString r)
        \<and> GetAnalyticWithWords (fst (Atoi (Param c ''id''))) r (db w) = (Inl e, d) \<longrightarrow>
      getAnalyticWithWordsByPostID GetAnalyticWithWords c w =
        (Response (if errors_Is e ErrAnalyticNotFound then StatusNotFound
                  else StatusInternalServerError) (errorResponse (Error e)),
         w\<lparr>db := d, calls := calls w @ [GetAnalyticWithWordsCall (fst (Atoi (Param c ''id''))) r],
             logged := logged w @
               (if errors_Is e ErrAnalyticNotFound then [] else [Error e])\<rparr>))
   \<and> (GetCategoriesWithPublicPosts (db w) = (Inl e, d) \<longrightarrow>
      getCategoriesWithPublicPosts GetCategoriesWithPublicPosts c w =
        (Response (if errors_Is e ErrPostNotFound then StatusNotFound
                  else StatusInternalServerError) (errorResponse (Error e)),
         w\<lparr>db := d, calls := calls w @ [GetCategoriesWithPublicPostsCall],
             logged := logged w @
               (if errors_Is e ErrPostNotFound then [] else [Error e])\<rparr>))
   \<and> (GetCategoriesWithPosts (db w) = (Inl e, d) \<longrightarrow>
      getCategoriesWithPosts GetCategoriesWithPosts c w =
        (Response (if errors_Is e ErrPostNotFound then StatusNotFound
                  else StatusInternalServerError) (errorResponse (Error e)),
         w\<lparr>db := d, calls := calls w @ [GetCategoriesWithPostsCall],
             logged := logged w @
               (if errors_Is e ErrPostNotFound then [] else [Error e])\<rparr>))
   \<and> (GetAllCategories (db w) = (Inl e, d) \<longrightarrow>
      getAllCategories GetAllCategories c w =
        (Response (if errors_Is e ErrCategoryNotFound then StatusNotFound
                  else StatusInternalServerError) (errorResponse (Error e)),
         w\<lparr>db := d, calls := calls w @ [GetAllCategoriesCall],
             logged := logged w @
               (if errors_Is e ErrCategoryNotFound then [] else [Error e])\<rparr>))
   \<and> (BindJSON cc = Inr t \<and> AddCategory t (db w) = (Inl e, d) \<longrightarrow>
      addCategory AddCategory cc w =
        (Response (if errors_Is e ErrCategoryExists then StatusConflict
                  else StatusInternalServerError) (errorResponse (Error e)),
         w\<lparr>db := d, calls := calls w @ [AddCategoryCall t],
             logged := logged w @
               (if errors_Is e ErrCategoryExists then [] else [Error e])\<rparr>))
   \<and> (BindUri c = Inr old \<and> BindQuery c = Inr new
        \<and> UpdateCategory old new (db w) = (Inl e, d) \<longrightarrow>
      updateCategory UpdateCategory c w =
        (Response (if errors_Is e ErrCategoryNotFound then StatusNotFound
                  else StatusInternalServerError) (errorResponse (Error e)),
         w\<lparr>db := d, calls := calls w @ [UpdateCategoryCall old new],
             logged := logged w @
               (if errors_Is e ErrCategoryNotFound then [] else [Error e])\<rparr>))
   \<and> (BindUri c = Inr old \<and> DeleteCategory old (db w) = (Some e, d) \<longrightarrow>
      deleteCategory DeleteCategory c w =
        (Response (if errors_Is e ErrCategoryNotFound then StatusNotFound
                  else StatusInternalServerError) (errorResponse (Error e)),
         w\<lparr>db := d, calls := calls w @ [DeleteCategoryCall old],
             logged := logged w @
               (if errors_Is e ErrCategoryNotFound then [] else [Error e])\<rparr>))
   \<and> (BindJSON cu = Inr (Some u) \<and> IsEmpty u \<longrightarrow>
      updateAnalytic UpdateAnalytic cu w
        = (Response StatusBadRequest (errorResponse ''analytic has no changes''), w))
   \<and> (Keys c ''role'' = None \<longrightarrow>
      getAnalyticWithWordsByPostID GetAnalyticWithWords c w
        = (Response StatusUnauthorized (errorResponse ''not found role''), w))
   \<and> wrote_log w (addAnalytic AddAnalytic ca w)
      = unexpected (addAnalytic AddAnalytic ca w)
   \<and> wrote_log w (updateAnalytic UpdateAnalytic cu w)
      = unexpected (updateAnalytic UpdateAnalytic cu w)
   \<and> wrote_log w (deleteAnalytic DeleteAnalytic c w)
      = unexpected (deleteAnalytic DeleteAnalytic c w)
   \<and> wrote_log w (getAnalyticWithWordsByPostID GetAnalyticWithWords c w)
      = unexpected (getAnalyticWithWordsByPostID GetAnalyticWithWords c w)
   \<and> wrote_log w (getCategoriesWithPublicPosts GetCategoriesWithPublicPosts c w)
      = unexpected (getCategoriesWithPublicPosts GetCategoriesWithPublicPosts c w)
   \<and> wrote_log w (getCategoriesWithPosts GetCategoriesWithPosts c w)
      = unexpected (getCategoriesWithPosts GetCategoriesWithPosts c w)
   \<and> wrote_log w (getAllCategories GetAllCategories c w)
      = unexpected (getAllCategories GetAllCategories c w)
   \<and> wrote_log w (addCategory AddCategory cc w)
      = unexpected (addCategory AddCategory cc w)
   \<and> wrote_log w (updateCategory UpdateCategory c w)
      = unexpected (updateCategory UpdateCategory c w)
   \<and> wrote_log w (deleteCategory DeleteCategory c w)
      = unexpected (deleteCategory DeleteCategory c w)"
proof -
  have outs:
    "(BindJSON ca = Inr (Some a) \<and> AddAnalytic a (db w) = (Inl e, d) \<longrightarrow>
        addAnalytic AddAnalytic ca w =
          (Response (if errors_Is e ErrPostIDExist then StatusBadRequest
                    else if errors_Is e ErrAnalyticDependencyNotFound then StatusConflict
                    else StatusInternalServerError) (errorResponse (Error e)),
           w\<lparr>db := d, calls := calls w @ [AddAnalyticCall a],
               logged := logged w @
                 (if errors_Is e ErrPostIDExist
                      \<or> errors_Is e ErrAnalyticDependencyNotFound then [] else [Error e])\<rparr>))"
    "(BindJSON cu = Inr (Some u) \<and> \<not> IsEmpty u
          \<and> UpdateAnalytic (fst (Atoi (Param cu ''id''))) u (db w) = (Inl e, d) \<longrightarrow>
        updateAnalytic UpdateAnalytic cu w =
          (Response (if errors_Is e ErrPostIDExist then StatusBadRequest
                    else if errors_Is e ErrAnalyticNotFound then StatusNotFound
                    else if errors_Is e ErrAnalyticDependencyNotFound then StatusConflict
                    else StatusInternalServerError) (errorResponse (Error e)),
           w\<lparr>db := d, calls := calls w @ [UpdateAnalyticCall (fst (Atoi (Param cu ''id''))) u],
               logged := logged w @
                 (if errors_Is e ErrPostIDExist
                      \<or> errors_Is e ErrAnalyticNotFound
                      \<or> errors_Is e ErrAnalyticDependencyNotFound then [] else [Error e])\<rparr>))"
    "(DeleteAnalytic (fst (Atoi (Param c ''id''))) (db w) = (Some e, d) \<longrightarrow>
        deleteAnalytic DeleteAnalytic c w =
          (Response (if errors_Is e ErrAnalyticNotFound then StatusNotFound
                    else StatusInternalServerError) (errorResponse (Error e)),
           w\<lparr>db := d, calls := calls w @ [DeleteAnalyticCall (fst (Atoi (Param c ''id'')))],
               logged := logged w @
                 (if errors_Is e ErrAnalyticNotFound then [] else [Error e])\<rparr>))"
    "(Keys c ''role'' = Some (AnyString r)
          \<and> GetAnalyticWithWords (fst (Atoi (Param c ''id''))) r (db w) = (Inl e, d) \<longrightarrow>
        getAnalyticWithWordsByPostID GetAnalyticWithWords c w =
          (Response (if errors_Is e ErrAnalyticNotFound then StatusNotFound
                    else StatusInternalServerError) (errorResponse (Error e)),
           w\<lparr>db := d, calls := calls w @ [GetAnalyticWithWordsCall (fst (Atoi (Param c ''id''))) r],
               logged := logged w @
                 (if errors_Is e ErrAnalyticNotFound then [] else [Error e])\<rparr>))"
    "(GetCategoriesWithPublicPosts (db w) = (Inl e, d) \<longrightarrow>
        getCategoriesWithPublicPosts GetCategoriesWithPublicPosts c w =
          (Response (if errors_Is e ErrPostNotFound then StatusNotFound
                    else StatusInternalServerError) (errorResponse (Error e)),
           w\<lparr>db := d, calls := calls w @ [GetCategoriesWithPublicPostsCall],
               logged := logged w @
                 (if errors_Is e ErrPostNotFound then [] else [Error e])\<rparr>))"
    "(GetCategoriesWithPosts (db w) = (Inl e, d) \<longrightarrow>
        getCategoriesWithPosts GetCategoriesWithPosts c w =
          (Response (if errors_Is e ErrPostNotFound then StatusNotFound
                    else StatusInternalServerError) (errorResponse (Error e)),
           w\<lparr>db := d, calls := calls w @ [GetCategoriesWithPostsCall],
               logged := logged w @
                 (if errors_Is e ErrPostNotFound then [] else [Error e])\<rparr>))"
    "(GetAllCategories (db w) = (Inl e, d) \<longrightarrow>
        getAllCategories GetAllCategories c w =
          (Response (if errors_Is e ErrCategoryNotFound then StatusNotFound
                    else StatusInternalServerError) (errorResponse (Error e)),
           w\<lparr>db := d, calls := calls w @ [GetAllCategoriesCall],
               logged := logged w @
                 (if errors_Is e ErrCategoryNotFound then [] else [Error e])\<rparr>))"
    "(BindJSON cc = Inr t \<and> AddCategory t (db w) = (Inl e, d) \<longrightarrow>
        addCategory AddCategory cc w =
          (Response (if errors_Is e ErrCategoryExists then StatusConflict
                    else StatusInternalServerError) (errorResponse (Error e)),
           w\<lparr>db := d, calls := calls w @ [AddCategoryCall t],
               logged := logged w @
                 (if errors_Is e ErrCategoryExists then [] else [Error e])\<rparr>))"
    "(BindUri c = Inr old \<and> BindQuery c = Inr new
          \<and> UpdateCategory old new (db w) = (Inl e, d) \<longrightarrow>
        updateCategory UpdateCategory c w =
          (Response (if errors_Is e ErrCategoryNotFound then StatusNotFound
                    else StatusInternalServerError) (errorResponse (Error e)),
           w\<lparr>db := d, calls := calls w @ [UpdateCategoryCall old new],
               logged := logged w @
                 (if errors_Is e ErrCategoryNotFound then [] else [Error e])\<rparr>))"
    "(BindUri c = Inr old \<and> DeleteCategory old (db w) = (Some e, d) \<longrightarrow>
        deleteCategory DeleteCategory c w =
          (Response (if errors_Is e ErrCategoryNotFound then StatusNotFound
                    else StatusInternalServerError) (errorResponse (Error e)),
           w\<lparr>db := d, calls := calls w @ [DeleteCategoryCall old],
               logged := logged w @
                 (if errors_Is e ErrCategoryNotFound then [] else [Error e])\<rparr>))"
    by (simp_all add: addAnalytic_error updateAnalytic_error deleteAnalytic_error
        getAnalyticWithWords_error getCategoriesWithPublicPosts_error
        getCategoriesWithPosts_error getAllCategories_error addCategory_error
        updateCategory_error deleteCategory_error)
  have early:
    "(BindJSON cu = Inr (Some u) \<and> IsEmpty u \<longrightarrow>
        updateAnalytic UpdateAnalytic cu w
          = (Response StatusBadRequest (errorResponse ''analytic has no changes''), w))"
    "(Keys c ''role'' = None \<longrightarrow>
        getAnalyticWithWordsByPostID GetAnalyticWithWords c w
          = (Response StatusUnauthorized (errorResponse ''not found role''), w))"
    by (simp_all add: updateAnalytic_def getAnalyticWithWordsByPostID_def)
  have iffs:
    "wrote_log w (addAnalytic AddAnalytic ca w)
        = unexpected (addAnalytic AddAnalytic ca w)"
    "wrote_log w (updateAnalytic UpdateAnalytic cu w)
        = unexpected (updateAnalytic UpdateAnalytic cu w)"
    "wrote_log w (deleteAnalytic DeleteAnalytic c w)
        = unexpected (deleteAnalytic DeleteAnalytic c w)"
    "wrote_log w (getAnalyticWithWordsByPostID GetAnalyticWithWords c w)
        = unexpected (getAnalyticWithWordsByPostID GetAnalyticWithWords c w)"
    "wrote_log w (getCategoriesWithPublicPosts GetCategoriesWithPublicPosts c w)
        = unexpected (getCategoriesWithPublicPosts GetCategoriesWithPublicPosts c w)"
    "wrote_log w (getCategoriesWithPosts GetCategoriesWithPosts c w)
        = unexpected (getCategoriesWithPosts GetCategoriesWithPosts c w)"
    "wrote_log w (getAllCategories GetAllCategories c w)
        = unexpected (getAllCategories GetAllCategories c w)"
    "wrote_log w (addCategory AddCategory cc w)
        = unexpected (addCategory AddCategory cc w)"
    "wrote_log w (updateCategory UpdateCategory c w)
        = unexpected (updateCategory UpdateCategory c w)"
    "wrote_log w (deleteCategory DeleteCategory c w)
        = unexpected (deleteCategory DeleteCategory c w)"
    by (auto simp: addAnalytic_def updateAnalytic_def deleteAnalytic_def getAnalyticWithWordsByPostID_def
        getCategoriesWithPublicPosts_def getCategoriesWithPosts_def getAllCategories_def
        addCategory_def updateCategory_def deleteCategory_def
        handler_simps wrote_log_def unexpected_def
        split: sum.splits prod.splits option.splits any.splits)
  from outs early iffs show ?thesis
    by blast
qed

theorem log_follows_handler_cases_witness:
  "fst (addAnalytic AddAnalytic_spec
           (request [] Map.empty (Inr (Some \<lparr>ID = 0, PostID = 7, metrics = []\<rparr>))) (world_of demo_store))
      = Response StatusBadRequest (errorResponse ''PostIDAlreadyExists'')
   \<and> logged (snd (addAnalytic AddAnalytic_spec
           (request [] Map.empty (Inr (Some \<lparr>ID = 0, PostID = 7, metrics = []\<rparr>))) (world_of demo_store)))
      = []
   \<and> fst (updateAnalytic UpdateAnalytic_spec
           (request ''2'' Map.empty (Inr (Some \<lparr>PostID_opt = Some 7, metrics_opt = []\<rparr>))) (world_of demo_store))
      = Response StatusBadRequest (errorResponse ''PostIDAlreadyExists'')
   \<and> logged (snd (updateAnalytic UpdateAnalytic_spec
           (request ''2'' Map.empty (Inr (Some \<lparr>PostID_opt = Some 7, metrics_opt = []\<rparr>))) (world_of demo_store)))
      = []
   \<and> fst (deleteAnalytic DeleteAnalytic_spec (request ''99'' Map.empty (Inl []))
           (world_of demo_store))
      = Response StatusNotFound (errorResponse ''AnalyticNotFound'')
   \<and> logged (snd (deleteAnalytic DeleteAnalytic_spec (request ''99'' Map.empty (Inl []))
           (world_of demo_store)))
      = []
   \<and> fst (getAnalyticWithWordsByPostID (GetAnalyticWithWords_spec (\<lambda>r ws. ws) (\<lambda>p. []))
           (request ''99'' [''role'' \<mapsto> AnyString ''admin''] (Inl [])) (world_of demo_store))
      = Response StatusNotFound (errorResponse ''AnalyticNotFound'')
   \<and> logged (snd (getAnalyticWithWordsByPostID (GetAnalyticWithWords_spec (\<lambda>r ws. ws) (\<lambda>p. []))
           (request ''99'' [''role'' \<mapsto> AnyString ''admin''] (Inl [])) (world_of demo_store)))
      = []
   \<and> fst (getCategoriesWithPublicPosts GetCategoriesWithPublicPosts_spec
           (category_request (Inr ''news'') (Inr ''sport'')) (world_of empty_store))
      = Response StatusNotFound (errorResponse ''PostNotFound'')
   \<and> logged (snd (getCategoriesWithPublicPosts GetCategoriesWithPublicPosts_spec
           (category_request (Inr ''news'') (Inr ''sport'')) (world_of empty_store)))
      = []
   \<and> fst (getCategoriesWithPosts GetCategoriesWithPosts_spec
           (category_request (Inr ''news'') (Inr ''sport'')) (world_of empty_store))
      = Response StatusNotFound (errorResponse ''PostNotFound'')
   \<and> logged (snd (getCategoriesWithPosts GetCategoriesWithPosts_spec
           (category_request (Inr ''news'') (Inr ''sport'')) (world_of empty_store)))
      = []
   \<and> fst (getAllCategories GetAllCategories_spec
           (category_request (Inr ''news'') (Inr ''sport'')) (world_of empty_store))
      = Response StatusNotFound (errorResponse ''CategoryNotFound'')
   \<and> logged (snd (getAllCategories GetAllCategories_spec
           (category_request (Inr ''news'') (Inr ''sport'')) (world_of empty_store)))
      = []
   \<and> fst (addCategory AddCategory_spec (request [] Map.empty (Inr \<lparr>Title = ''news''\<rparr>))
           (world_of demo_store))
      = Response StatusConflict (errorResponse ''CategoryAlreadyExists'')
   \<and> logged (snd (addCategory AddCategory_spec (request [] Map.empty (Inr \<lparr>Title = ''news''\<rparr>))
           (world_of demo_store)))
      = []
   \<and> fst (addCategory (\<lambda>c s. (Inl \<lparr>chain = [], Error = ''connection refused''\<rparr>, s))
           (request [] Map.empty (Inr \<lparr>Title = ''news''\<rparr>)) (world_of demo_store))
      = Response StatusInternalServerError (errorResponse ''connection refused'')
   \<and> logged (snd (addCategory (\<lambda>c s. (Inl \<lparr>chain = [], Error = ''connection refused''\<rparr>, s))
           (request [] Map.empty (Inr \<lparr>Title = ''news''\<rparr>)) (world_of demo_store)))
      = [''connection refused'']
   \<and> fst (updateCategory (UpdateCategory_spec (\<lambda>old new s. (Inl (failure ErrCategoryExists), s)))
           (category_request (Inr ''news'') (Inr ''sport'')) (world_of empty_store))
      = Response StatusNotFound (errorResponse ''CategoryNotFound'')
   \<and> logged (snd (updateCategory (UpdateCategory_spec (\<lambda>old new s. (Inl (failure ErrCategoryExists), s)))
           (category_request (Inr ''news'') (Inr ''sport'')) (world_of empty_store)))
      = []
   \<and> fst (updateCategory (UpdateCategory_spec (\<lambda>old new s. (Inl (failure ErrCategoryExists), s)))
           (category_request (Inr ''news'') (Inr ''sport'')) (world_of two_category_store))
      = Response StatusInternalServerError (errorResponse ''CategoryAlreadyExists'')
   \<and> logged (snd (updateCategory (UpdateCategory_spec (\<lambda>old new s. (Inl (failure ErrCategoryExists), s)))
           (category_request (Inr ''news'') (Inr ''sport'')) (world_of two_category_store)))
      = [''CategoryAlreadyExists'']
   \<and> fst (deleteCategory (DeleteCategory_spec (\<lambda>t s. (None, s)))
           (category_request (Inr ''news'') (Inr ''sport'')) (world_of empty_store))
      = Response StatusNotFound (errorResponse ''CategoryNotFound'')
   \<and> logged (snd (deleteCategory (DeleteCategory_spec (\<lambda>t s. (None, s)))
           (category_request (Inr ''news'') (Inr ''sport'')) (world_of empty_store)))
      = []
   \<and> fst (updateAnalytic UpdateAnalytic_spec
           (request ''1'' Map.empty (Inr (Some \<lparr>PostID_opt = None, metrics_opt = []\<rparr>))) (world_of demo_store))
      = Response StatusBadRequest (errorResponse ''analytic has no changes'')
   \<and> logged (snd (updateAnalytic UpdateAnalytic_spec
           (request ''1'' Map.empty (Inr (Some \<lparr>PostID_opt = None, metrics_opt = []\<rparr>))) (world_of demo_store)))
      = []
   \<and> fst (getAnalyticWithWordsByPostID (GetAnalyticWithWords_spec (\<lambda>r ws. ws) (\<lambda>p. []))
           (request ''7'' Map.empty (Inl [])) (world_of demo_store))
      = Response StatusUnauthorized (errorResponse ''not found role'')
   \<and> logged (snd (getAnalyticWithWordsByPostID (GetAnalyticWithWords_spec (\<lambda>r ws. ws) (\<lambda>p. []))
           (request ''7'' Map.empty (Inl [])) (world_of demo_store)))
      = []"
proof -
  have w1: "fst (addAnalytic AddAnalytic_spec
           (request [] Map.empty (Inr (Some \<lparr>ID = 0, PostID = 7, metrics = []\<rparr>))) (world_of demo_store))
      = Response StatusBadRequest (errorResponse ''PostIDAlreadyExists'')
   \<and> logged (snd (addAnalytic AddAnalytic_spec
           (request [] Map.empty (Inr (Some \<lparr>ID = 0, PostID = 7, metrics = []\<rparr>))) (world_of demo_store)))
      = []"
    using log_follows_handler_cases
      [where w = "world_of demo_store" and e = "failure ErrPostIDExist" and d = demo_store
         and ca = "request [] Map.empty (Inr (Some \<lparr>ID = 0, PostID = 7, metrics = []\<rparr>))"
         and a = "\<lparr>ID = 0, PostID = 7, metrics = []\<rparr>" and AddAnalytic = AddAnalytic_spec,
       THEN conjunct1]
    by (simp add: srv_simps demo_simps Atoi_simps errors_Is_def IsEmpty_def world_of_def)
  have w2: "fst (updateAnalytic UpdateAnalytic_spec
           (request ''2'' Map.empty (Inr (Some \<lparr>PostID_opt = Some 7, metrics_opt = []\<rparr>))) (world_of demo_store))
      = Response StatusBadRequest (errorResponse ''PostIDAlreadyExists'')
   \<and> logged (snd (updateAnalytic UpdateAnalytic_spec
           (request ''2'' Map.empty (Inr (Some \<lparr>PostID_opt = Some 7, metrics_opt = []\<rparr>))) (world_of demo_store)))
      = []"
    using log_follows_handler_cases
      [where w = "world_of demo_store" and e = "failure ErrPostIDExist" and d = demo_store
         and cu = "request ''2'' Map.empty (Inr (Some \<lparr>PostID_opt = Some 7, metrics_opt = []\<rparr>))"
         and u = "\<lparr>PostID_opt = Some 7, metrics_opt = []\<rparr>" and UpdateAnalytic = UpdateAnalytic_spec,
       THEN conjunct2, THEN conjunct1]
    by (simp add: srv_simps demo_simps Atoi_simps errors_Is_def IsEmpty_def world_of_def)
  have w3: "fst (deleteAnalytic DeleteAnalytic_spec (request ''99'' Map.empty (Inl []))
           (world_of demo_store))
      = Response StatusNotFound (errorResponse ''AnalyticNotFound'')
   \<and> logged (snd (deleteAnalytic DeleteAnalytic_spec (request ''99'' Map.empty (Inl []))
           (world_of demo_store)))
      = []"
    using log_follows_handler_cases
      [where w = "world_of demo_store" and e = "failure ErrAnalyticNotFound" and d = demo_store
         and c = "request ''99'' Map.empty (Inl [])" and DeleteAnalytic = DeleteAnalytic_spec,
       THEN conjunct2, THEN conjunct2, THEN conjunct1]
    by (simp add: srv_simps demo_simps Atoi_simps errors_Is_def IsEmpty_def world_of_def)
  have w4: "fst (getAnalyticWithWordsByPostID (GetAnalyticWithWords_spec (\<lambda>r ws. ws) (\<lambda>p. []))
           (request ''99'' [''role'' \<mapsto> AnyString ''admin''] (Inl [])) (world_of demo_store))
      = Response StatusNotFound (errorResponse ''AnalyticNotFound'')
   \<and> logged (snd (getAnalyticWithWordsByPostID (GetAnalyticWithWords_spec (\<lambda>r ws. ws) (\<lambda>p. []))
           (request ''99'' [''role'' \<mapsto> AnyString ''admin''] (Inl [])) (world_of demo_store)))
      = []"
    using log_follows_handler_cases
      [where w = "world_of demo_store" and e = "failure ErrAnalyticNotFound" and d = demo_store
         and c = "request ''99'' [''role'' \<mapsto> AnyString ''admin''] (Inl [])" and r = "''admin''"
         and GetAnalyticWithWords = "GetAnalyticWithWords_spec (\<lambda>r ws. ws) (\<lambda>p. [])",
       THEN conjunct2, THEN conjunct2, THEN conjunct2, THEN conjunct1]
    by (simp add: srv_simps demo_simps Atoi_simps errors_Is_def IsEmpty_def world_of_def)
  have w5: "fst (getCategoriesWithPublicPosts GetCategoriesWithPublicPosts_spec
           (category_request (Inr ''news'') (Inr ''sport'')) (world_of empty_store))
      = Response StatusNotFound (errorResponse ''PostNotFound'')
   \<and> logged (snd (getCategoriesWithPublicPosts GetCategoriesWithPublicPosts_spec
           (category_request (Inr ''news'') (Inr ''sport'')) (world_of empty_store)))
      = []"
    using log_follows_handler_cases
      [where w = "world_of empty_store" and e = "failure ErrPostNotFound" and d = empty_store
         and c = "category_request (Inr ''news'') (Inr ''sport'')"
         and GetCategoriesWithPublicPosts = GetCategoriesWithPublicPosts_spec,
       THEN conjunct2, THEN conjunct2, THEN conjunct2, THEN conjunct2, THEN conjunct1]
    by (simp add: srv_simps demo_simps Atoi_simps errors_Is_def IsEmpty_def world_of_def)
  have w6: "fst (getCategoriesWithPosts GetCategoriesWithPosts_spec
           (category_request (Inr ''news'') (Inr ''sport'')) (world_of empty_store))
      = Response StatusNotFound (errorResponse ''PostNotFound'')
   \<and> logged (snd (getCategoriesWithPosts GetCategoriesWithPosts_spec
           (category_request (Inr ''news'') (Inr ''sport'')) (world_of empty_store)))
      = []"
    using log_follows_handler_cases
      [where w = "world_of empty_store" and e = "failure ErrPostNotFound" and d = empty_store
         and c = "category_request (Inr ''news'') (Inr ''sport'')"
         and GetCategoriesWithPosts = GetCategoriesWithPosts_spec,
       THEN conjunct2, THEN conjunct2, THEN conjunct2, THEN conjunct2, THEN conjunct2,
       THEN conjunct1]
    by (simp add: srv_simps demo_simps Atoi_simps errors_Is_def IsEmpty_def world_of_def)
  have w7: "fst (getAllCategories GetAllCategories_spec
           (category_request (Inr ''news'') (Inr ''sport'')) (world_of empty_store))
      = Response StatusNotFound (errorResponse ''CategoryNotFound'')
   \<and> logged (snd (getAllCategories GetAllCategories_spec
           (category_request (Inr ''news'') (Inr ''sport'')) (world_of empty_store)))
      = []"
    using log_follows_handler_cases
      [where w = "world_of empty_store" and e = "failure ErrCategoryNotFound" and d = empty_store
         and c = "category_request (Inr ''news'') (Inr ''sport'')"
         and GetAllCategories = GetAllCategories_spec,
       THEN conjunct2, THEN conjunct2, THEN conjunct2, THEN conjunct2, THEN conjunct2,
       THEN conjunct2, THEN conjunct1]
    by (simp add: srv_simps demo_simps Atoi_simps errors_Is_def IsEmpty_def world_of_def)
  have w8: "fst (addCategory AddCategory_spec (request [] Map.empty (Inr \<lparr>Title = ''news''\<rparr>))
           (world_of demo_store))
      = Response StatusConflict (errorResponse ''CategoryAlreadyExists'')
   \<and> logged (snd (addCategory AddCategory_spec (request [] Map.empty (Inr \<lparr>Title = ''news''\<rparr>))
           (world_of demo_store)))
      = []"
    using log_follows_handler_cases
      [where w = "world_of demo_store" and e = "failure ErrCategoryExists" and d = demo_store
         and cc = "request [] Map.empty (Inr \<lparr>Title = ''news''\<rparr>)" and t = "\<lparr>Title = ''news''\<rparr>"
         and AddCategory = AddCategory_spec,
       THEN conjunct2, THEN conjunct2, THEN conjunct2, THEN conjunct2, THEN conjunct2,
       THEN conjunct2, THEN conjunct2, THEN conjunct1]
    by (simp add: srv_simps demo_simps Atoi_simps errors_Is_def IsEmpty_def world_of_def)
  have w9: "fst (addCategory (\<lambda>c s. (Inl \<lparr>chain = [], Error = ''connection refused''\<rparr>, s))
           (request [] Map.empty (Inr \<lparr>Title = ''news''\<rparr>)) (world_of demo_store))
      = Response StatusInternalServerError (errorResponse ''connection refused'')
   \<and> logged (snd (addCategory (\<lambda>c s. (Inl \<lparr>chain = [], Error = ''connection refused''\<rparr>, s))
           (request [] Map.empty (Inr \<lparr>Title = ''news''\<rparr>)) (world_of demo_store)))
      = [''connection refused'']"
    using log_follows_handler_cases
      [where w = "world_of demo_store" and e = "\<lparr>chain = [], Error = ''connection refused''\<rparr>" and d = demo_store
         and cc = "request [] Map.empty (Inr \<lparr>Title = ''news''\<rparr>)" and t = "\<lparr>Title = ''news''\<rparr>"
         and AddCategory = "\<lambda>c s. (Inl \<lparr>chain = [], Error = ''connection refused''\<rparr>, s)",
       THEN conjunct2, THEN conjunct2, THEN conjunct2, THEN conjunct2, THEN conjunct2,
       THEN conjunct2, THEN conjunct2, THEN conjunct1]
    by (simp add: srv_simps demo_simps Atoi_simps errors_Is_def IsEmpty_def world_of_def)
  have w10: "fst (updateCategory (UpdateCategory_spec (\<lambda>old new s. (Inl (failure ErrCategoryExists), s)))
           (category_request (Inr ''news'') (Inr ''sport'')) (world_of empty_store))
      = Response StatusNotFound (errorResponse ''CategoryNotFound'')
   \<and> logged (snd (updateCategory (UpdateCategory_spec (\<lambda>old new s. (Inl (failure ErrCategoryExists), s)))
           (category_request (Inr ''news'') (Inr ''sport'')) (world_of empty_store)))
      = []"
    using log_follows_handler_cases
      [where w = "world_of empty_store" and e = "failure ErrCategoryNotFound" and d = empty_store
         and c = "category_request (Inr ''news'') (Inr ''sport'')"
         and old = "''news''" and new = "''sport''"
         and UpdateCategory = "UpdateCategory_spec (\<lambda>old new s. (Inl (failure ErrCategoryExists), s))",
       THEN conjunct2, THEN conjunct2, THEN conjunct2, THEN conjunct2, THEN conjunct2,
       THEN conjunct2, THEN conjunct2, THEN conjunct2, THEN conjunct1]
    by (simp add: srv_simps demo_simps Atoi_simps errors_Is_def IsEmpty_def world_of_def)
  have w11: "fst (updateCategory (UpdateCategory_spec (\<lambda>old new s. (Inl (failure ErrCategoryExists), s)))
           (category_request (Inr ''news'') (Inr ''sport'')) (world_of two_category_store))
      = Response StatusInternalServerError (errorResponse ''CategoryAlreadyExists'')
   \<and> logged (snd (updateCategory (UpdateCategory_spec (\<lambda>old new s. (Inl (failure ErrCategoryExists), s)))
           (category_request (Inr ''news'') (Inr ''sport'')) (world_of two_category_store)))
      = [''CategoryAlreadyExists'']"
    using log_follows_handler_cases
      [where w = "world_of two_category_store" and e = "failure ErrCategoryExists" and d = two_category_store
         and c = "category_request (Inr ''news'') (Inr ''sport'')"
         and old = "''news''" and new = "''sport''"
         and UpdateCategory = "UpdateCategory_spec (\<lambda>old new s. (Inl (failure ErrCategoryExists), s))",
       THEN conjunct2, THEN conjunct2, THEN conjunct2, THEN conjunct2, THEN conjunct2,
       THEN conjunct2, THEN conjunct2, THEN conjunct2, THEN conjunct1]
    by (simp add: srv_simps demo_simps Atoi_simps errors_Is_def IsEmpty_def world_of_def)
  have w12: "fst (deleteCategory (DeleteCategory_spec (\<lambda>t s. (None, s)))
           (category_request (Inr ''news'') (Inr ''sport'')) (world_of empty_store))
      = Response StatusNotFound (errorResponse ''CategoryNotFound'')
   \<and> logged (snd (deleteCategory (DeleteCategory_spec (\<lambda>t s. (None, s)))
           (category_request (Inr ''news'') (Inr ''sport'')) (world_of empty_store)))
      = []"
    using log_follows_handler_cases
      [where w = "world_of empty_store" and e = "failure ErrCategoryNotFound" and d = empty_store
         and c = "category_request (Inr ''news'') (Inr ''sport'')" and old = "''news''"
         and DeleteCategory = "DeleteCategory_spec (\<lambda>t s. (None, s))",
       THEN conjunct2, THEN conjunct2, THEN conjunct2, THEN conjunct2, THEN conjunct2,
       THEN conjunct2, THEN conjunct2, THEN conjunct2, THEN conjunct2, THEN conjunct1]
    by (simp add: srv_simps demo_simps Atoi_simps errors_Is_def IsEmpty_def world_of_def)
  have w13: "fst (updateAnalytic UpdateAnalytic_spec
           (request ''1'' Map.empty (Inr (Some \<lparr>PostID_opt = None, metrics_opt = []\<rparr>))) (world_of demo_store))
      = Response StatusBadRequest (errorResponse ''analytic has no changes'')
   \<and> logged (snd (updateAnalytic UpdateAnalytic_spec
           (request ''1'' Map.empty (Inr (Some \<lparr>PostID_opt = None, metrics_opt = []\<rparr>))) (world_of demo_store)))
      = []"
    using log_follows_handler_cases
      [where w = "world_of demo_store" and cu = "request ''1'' Map.empty (Inr (Some \<lparr>PostID_opt = None, metrics_opt = []\<rparr>))"
         and u = "\<lparr>PostID_opt = None, metrics_opt = []\<rparr>" and UpdateAnalytic = UpdateAnalytic_spec,
       THEN conjunct2, THEN conjunct2, THEN conjunct2, THEN conjunct2, THEN conjunct2,
       THEN conjunct2, THEN conjunct2, THEN conjunct2, THEN conjunct2, THEN conjunct2,
       THEN conjunct1]
    by (simp add: srv_simps demo_simps Atoi_simps errors_Is_def IsEmpty_def world_of_def)
  have w14: "fst (getAnalyticWithWordsByPostID (GetAnalyticWithWords_spec (\<lambda>r ws. ws) (\<lambda>p. []))
           (request ''7'' Map.empty (Inl [])) (world_of demo_store))
      = Response StatusUnauthorized (errorResponse ''not found role'')
   \<and> logged (snd (getAnalyticWithWordsByPostID (GetAnalyticWithWords_spec (\<lambda>r ws. ws) (\<lambda>p. []))
           (request ''7'' Map.empty (Inl [])) (world_of demo_store)))
      = []"
    using log_follows_handler_cases
      [where w = "world_of demo_store" and c = "request ''7'' Map.empty (Inl [])"
         and GetAnalyticWithWords = "GetAnalyticWithWords_spec (\<lambda>r ws. ws) (\<lambda>p. [])",
       THEN conjunct2, THEN conjunct2, THEN conjunct2, THEN conjunct2, THEN conjunct2,
       THEN conjunct2, THEN conjunct2, THEN conjunct2, THEN conjunct2, THEN conjunct2,
       THEN conjunct2, THEN conjunct1]
    by (simp add: srv_simps demo_simps Atoi_simps errors_Is_def IsEmpty_def world_of_def)
  from w1 w2 w3 w4 w5 w6 w7 w8 w9 w10 w11 w12 w13 w14 show ?thesis
    by simp
qed

section \<open>Properties of the service\<close>

subsection \<open>The store stays in order\<close>

lemma ID_apply_update [simp]: "ID (apply_update u a) = ID a"
  by (simp add: apply_update_def)

lemma replace_ids:
  "ID new = i \<Longrightarrow> map ID (map (\<lambda>a. if ID a = i then new else a) xs) = map ID xs"
  by (induction xs) auto

lemma replace_post_ids_same:
  "PostID new = PostID old \<Longrightarrow> old \<in> set xs \<Longrightarrow> ID old = i \<Longrightarrow> distinct (map ID xs) \<Longrightarrow>
   map PostID (map (\<lambda>a. if ID a = i then new else a) xs) = map PostID xs"
proof -
  assume same: "PostID new = PostID old" and mem: "old \<in> set xs" and i: "ID old = i"
    and dist: "distinct (map ID xs)"
  have "x = old" if "x \<in> set xs" "ID x = i" for x
    using that mem i dist by (auto simp: distinct_map dest: inj_onD)
  then show ?thesis
    using same by (simp cong: map_cong)
qed

lemma replace_post_ids_fresh:
  "PostID new \<notin> PostID ` set xs \<Longrightarrow> distinct (map PostID xs) \<Longrightarrow>
   distinct (map ID xs) \<Longrightarrow>
   distinct (map PostID (map (\<lambda>a. if ID a = i then new else a) xs))"
proof (induction xs)
  case Nil
  then show ?case by simp
next
  case (Cons x xs)
  then show ?case
    by (auto simp: image_iff split: if_splits)
qed

lemma store_ok_init: "store_ok (Store_init ps cs n)"
  by (simp add: store_ok_def Store_init_def)

lemma store_ok_Add: "store_ok s \<Longrightarrow> store_ok (snd (AddAnalytic_spec a s))"
  by (auto simp: store_ok_def AddAnalytic_spec_def has_analytic_def Let_def list_all_iff)

lemma store_ok_Delete: "store_ok s \<Longrightarrow> store_ok (snd (DeleteAnalytic_spec i s))"
  by (auto simp: store_ok_def DeleteAnalytic_spec_def list_all_iff distinct_map_filter)

lemma store_ok_replace:
  assumes ok: "store_ok s" and old: "old \<in> set (analytics s)" "ID old = i"
    and new: "ID new = i" "PostID new = PostID old \<or> \<not> has_analytic (PostID new) s"
  shows "store_ok (s\<lparr>analytics := map (\<lambda>a. if ID a = i then new else a) (analytics s)\<rparr>)"
proof -
  let ?xs = "map (\<lambda>a. if ID a = i then new else a) (analytics s)"
  have ids: "map ID ?xs = map ID (analytics s)"
    using new(1) by (rule replace_ids)
  have bound: "list_all (\<lambda>a. ID a < next_id s) ?xs"
    using ok old new(1) by (auto simp: store_ok_def list_all_iff)
  have posts: "distinct (map PostID ?xs)"
  proof (cases "PostID new = PostID old")
    case True
    then have "map PostID ?xs = map PostID (analytics s)"
      using ok old by (intro replace_post_ids_same) (auto simp: store_ok_def)
    moreover have "distinct (map PostID (analytics s))"
      using ok by (simp add: store_ok_def)
    ultimately show ?thesis by (simp only:)
  next
    case False
    with new(2) have "PostID new \<notin> PostID ` set (analytics s)"
      by (simp add: has_analytic_def)
    then show ?thesis
      using ok by (intro replace_post_ids_fresh) (auto simp: store_ok_def)
  qed
  from ids bound posts ok show ?thesis
    unfolding store_ok_def by (simp del: map_map)
qed

lemma store_ok_Update: "store_ok s \<Longrightarrow> store_ok (snd (UpdateAnalytic_spec i u s))"
proof (cases "find (\<lambda>a. ID a = i) (analytics s)")
  case None
  then show "store_ok s \<Longrightarrow> ?thesis" by (simp add: UpdateAnalytic_spec_def)
next
  case (Some old)
  assume ok: "store_ok s"
  from Some have old: "old \<in> set (analytics s)" "ID old = i"
    by (auto simp: find_Some_iff)
  have same: "PostID (apply_update u old) = PostID old"
    if "\<not> (case PostID_opt u of None \<Rightarrow> False | Some p \<Rightarrow> p \<noteq> PostID old)"
    using that by (auto simp: apply_update_def split: option.splits)
  show ?thesis
    using ok Some same store_ok_replace [OF ok old, of "apply_update u old"] old
    by (auto simp: UpdateAnalytic_spec_def Let_def)
qed

lemma store_ok_step: "store_ok s \<Longrightarrow> store_ok (step op s)"
  by (cases op) (simp_all add: store_ok_Add store_ok_Update store_ok_Delete, simp add: store_ok_def)

lemma store_ok_run: "store_ok s \<Longrightarrow> store_ok (run ops s)"
  unfolding run_def by (induction ops arbitrary: s) (simp_all add: store_ok_step)

lemma holds_step:
  assumes ok: "store_ok s" and h: "holds p i s" and nr: "\<not> releases p i op"
  shows "holds p i (step op s)"
proof (cases op)
  case (OpAdd a)
  with h show ?thesis
    by (auto simp: holds_def list_ex_iff AddAnalytic_spec_def Let_def)
next
  case (OpUpdate j u)
  show ?thesis
  proof (cases "find (\<lambda>a. ID a = j) (analytics s)")
    case None
    with h OpUpdate show ?thesis by (simp add: UpdateAnalytic_spec_def)
  next
    case (Some old)
    then have old: "old \<in> set (analytics s)" "ID old = j"
      by (auto simp: find_Some_iff)
    from h obtain x where x: "x \<in> set (analytics s)" "ID x = i" "PostID x = p"
      by (auto simp: holds_def list_ex_iff)
    let ?new = "apply_update u old"
    let ?xs = "map (\<lambda>a. if ID a = j then ?new else a) (analytics s)"
    have "\<exists>y\<in>set ?xs. ID y = i \<and> PostID y = p"
    proof (cases "j = i")
      case True
      with x old ok have "old = x"
        by (auto simp: store_ok_def distinct_map dest: inj_onD)
      with nr OpUpdate True x have "PostID ?new = p"
        by (auto simp: apply_update_def split: option.splits)
      moreover have "ID ?new = i"
        using old True by simp
      moreover have "?new \<in> set ?xs"
        using x True by (auto simp: image_iff intro!: bexI [of _ x])
      ultimately show ?thesis by blast
    next
      case False
      with x show ?thesis by (auto intro!: bexI [of _ x])
    qed
    then have "holds p i (s\<lparr>analytics := ?xs\<rparr>)"
      by (simp add: holds_def list_ex_iff)
    with h Some OpUpdate show ?thesis
      by (auto simp: UpdateAnalytic_spec_def Let_def)
  qed
next
  case (OpDelete j)
  with h nr show ?thesis
    by (auto simp: holds_def list_ex_iff DeleteAnalytic_spec_def)
next
  case (OpPosts ps)
  with h show ?thesis by (simp add: holds_def)
qed

lemma holds_run:
  "store_ok s \<Longrightarrow> holds p i s \<Longrightarrow> \<forall>op\<in>set ops. \<not> releases p i op \<Longrightarrow> holds p i (run ops s)"
  unfolding run_def
  by (induction ops arbitrary: s) (simp_all add: store_ok_step holds_step)

lemma AddAnalytic_holds:
  "AddAnalytic_spec a s = (Inr r, s') \<Longrightarrow> holds (PostID a) (ID r) s'"
  by (auto simp: AddAnalytic_spec_def holds_def Let_def split: if_splits)

lemma holds_refuses:
  "holds p i s \<Longrightarrow> PostID b = p \<Longrightarrow> AddAnalytic_spec b s = (Inl (failure ErrPostIDExist), s)"
proof -
  assume "holds p i s" and b: "PostID b = p"
  then obtain x where "x \<in> set (analytics s)" "PostID x = p"
    by (auto simp: holds_def list_ex_iff)
  then have "has_analytic (PostID b) s"
    using b by (auto simp: has_analytic_def)
  then show ?thesis by (simp add: AddAnalytic_spec_def)
qed

subsection \<open>One Analytic for each Post\<close>

text \<open>
  An update that gives the record another PostID frees the first one: after AddAnalytic for
  Post 7 and an update that moves the record to Post 8, with no delete in between, a second
  AddAnalytic for Post 7 succeeds.
\<close>

theorem repointed_post_id_is_free_again:
  "fst (AddAnalytic_spec \<lparr>ID = 0, PostID = 7, metrics = []\<rparr>
          (Store_init [\<lparr>post_id = 7, category_title = ''news'', public = True\<rparr>,
                       \<lparr>post_id = 8, category_title = ''news'', public = False\<rparr>] [] 1))
     = Inr \<lparr>ID = 1, PostID = 7, metrics = []\<rparr>
   \<and> fst (AddAnalytic_spec \<lparr>ID = 0, PostID = 7, metrics = []\<rparr>
          (run [OpAdd \<lparr>ID = 0, PostID = 7, metrics = []\<rparr>,
                OpUpdate 1 \<lparr>PostID_opt = Some 8, metrics_opt = []\<rparr>]
             (Store_init [\<lparr>post_id = 7, category_title = ''news'', public = True\<rparr>,
                          \<lparr>post_id = 8, category_title = ''news'', public = False\<rparr>] [] 1)))
     = Inr \<lparr>ID = 2, PostID = 7, metrics = []\<rparr>"
  by (simp add: srv_simps demo_simps run_def Let_def AList.merge_def)

text \<open>
  C1, as the service of the specification has it. In every store reached from a store
  without Analytic records by AddAnalytic, UpdateAnalytic and DeleteAnalytic requests and
  changes to the Posts, no two Analytic records have the same PostID. After a successful
  AddAnalytic for the PostID P, every AddAnalytic for P fails with PostIDAlreadyExists and
  leaves the store as it is, as long as no request in between deletes the stored record or
  asks to give it a PostID other than P.
\<close>

theorem one_analytic_per_post:
  "distinct (map PostID (analytics (run ops (Store_init ps cs n))))
   \<and> (AddAnalytic_spec a (run pre (Store_init ps cs n)) = (Inr r, s')
        \<and> (\<forall>op\<in>set ops'. \<not> releases (PostID a) (ID r) op) \<and> PostID b = PostID a
      \<longrightarrow> AddAnalytic_spec b (run ops' s') = (Inl (failure ErrPostIDExist), run ops' s'))"
proof (intro conjI impI)
  show "distinct (map PostID (analytics (run ops (Store_init ps cs n))))"
    using store_ok_run [OF store_ok_init, of ops ps cs n] by (simp add: store_ok_def)
next
  assume asm: "AddAnalytic_spec a (run pre (Store_init ps cs n)) = (Inr r, s')
        \<and> (\<forall>op\<in>set ops'. \<not> releases (PostID a) (ID r) op) \<and> PostID b = PostID a"
  have "store_ok (run pre (Store_init ps cs n))"
    by (rule store_ok_run [OF store_ok_init])
  then have "store_ok (snd (AddAnalytic_spec a (run pre (Store_init ps cs n))))"
    by (rule store_ok_Add)
  with asm have ok: "store_ok s'" by simp
  from asm have "holds (PostID a) (ID r) s'"
    by (auto intro: AddAnalytic_holds)
  with ok asm have "holds (PostID a) (ID r) (run ops' s')"
    by (auto intro: holds_run)
  with asm show "AddAnalytic_spec b (run ops' s') = (Inl (failure ErrPostIDExist), run ops' s')"
    by (auto intro: holds_refuses)
qed

theorem one_analytic_per_post_witness:
  "AddAnalytic_spec \<lparr>ID = 0, PostID = 7, metrics = []\<rparr> (run [] (Store_init
            [\<lparr>post_id = 7, category_title = ''news'', public = True\<rparr>,
             \<lparr>post_id = 8, category_title = ''news'', public = False\<rparr>] [] 1))
      = (Inr \<lparr>ID = 1, PostID = 7, metrics = []\<rparr>,
         \<lparr>analytics = [\<lparr>ID = 1, PostID = 7, metrics = []\<rparr>],
            posts = [\<lparr>post_id = 7, category_title = ''news'', public = True\<rparr>,
             \<lparr>post_id = 8, category_title = ''news'', public = False\<rparr>],
            categories = [], next_id = 2\<rparr>)
   \<and> list_all (\<lambda>op. \<not> releases 7 1 op)
         [OpUpdate 1 \<lparr>PostID_opt = None, metrics_opt = [(''a'', 9)]\<rparr>, OpDelete 5,
            OpAdd \<lparr>ID = 0, PostID = 8, metrics = []\<rparr>]
   \<and> distinct (map PostID (analytics (run [OpAdd \<lparr>ID = 0, PostID = 7, metrics = []\<rparr>,
          OpAdd \<lparr>ID = 0, PostID = 7, metrics = []\<rparr>]
         (Store_init
            [\<lparr>post_id = 7, category_title = ''news'', public = True\<rparr>,
             \<lparr>post_id = 8, category_title = ''news'', public = False\<rparr>] [] 1))))
   \<and> AddAnalytic_spec \<lparr>ID = 0, PostID = 7, metrics = [(''a'', 3)]\<rparr>
        (run [OpUpdate 1 \<lparr>PostID_opt = None, metrics_opt = [(''a'', 9)]\<rparr>, OpDelete 5,
            OpAdd \<lparr>ID = 0, PostID = 8, metrics = []\<rparr>]
           (\<lparr>analytics = [\<lparr>ID = 1, PostID = 7, metrics = []\<rparr>],
            posts = [\<lparr>post_id = 7, category_title = ''news'', public = True\<rparr>,
             \<lparr>post_id = 8, category_title = ''news'', public = False\<rparr>],
            categories = [], next_id = 2\<rparr>))
      = (Inl (failure ErrPostIDExist),
         run [OpUpdate 1 \<lparr>PostID_opt = None, metrics_opt = [(''a'', 9)]\<rparr>, OpDelete 5,
            OpAdd \<lparr>ID = 0, PostID = 8, metrics = []\<rparr>]
           (\<lparr>analytics = [\<lparr>ID = 1, PostID = 7, metrics = []\<rparr>],
            posts = [\<lparr>post_id = 7, category_title = ''news'', public = True\<rparr>,
             \<lparr>post_id = 8, category_title = ''news'', public = False\<rparr>],
            categories = [], next_id = 2\<rparr>))"
proof -
  have w1: "distinct (map PostID (analytics (run [OpAdd \<lparr>ID = 0, PostID = 7, metrics = []\<rparr>,
          OpAdd \<lparr>ID = 0, PostID = 7, metrics = []\<rparr>]
         (Store_init
            [\<lparr>post_id = 7, category_title = ''news'', public = True\<rparr>,
             \<lparr>post_id = 8, category_title = ''news'', public = False\<rparr>] [] 1))))"
    using one_analytic_per_post
      [where ops = "[OpAdd \<lparr>ID = 0, PostID = 7, metrics = []\<rparr>, OpAdd \<lparr>ID = 0, PostID = 7, metrics = []\<rparr>]"
         and ps = "[\<lparr>post_id = 7, category_title = ''news'', public = True\<rparr>,
             \<lparr>post_id = 8, category_title = ''news'', public = False\<rparr>]"
         and cs = "[]" and n = 1,
       THEN conjunct1]
    by (simp add: srv_simps demo_simps run_def Let_def AList.merge_def)
  have w2: "AddAnalytic_spec \<lparr>ID = 0, PostID = 7, metrics = [(''a'', 3)]\<rparr>
        (run [OpUpdate 1 \<lparr>PostID_opt = None, metrics_opt = [(''a'', 9)]\<rparr>, OpDelete 5,
            OpAdd \<lparr>ID = 0, PostID = 8, metrics = []\<rparr>]
           (\<lparr>analytics = [\<lparr>ID = 1, PostID = 7, metrics = []\<rparr>],
            posts = [\<lparr>post_id = 7, category_title = ''news'', public = True\<rparr>,
             \<lparr>post_id = 8, category_title = ''news'', public = False\<rparr>],
            categories = [], next_id = 2\<rparr>))
      = (Inl (failure ErrPostIDExist),
         run [OpUpdate 1 \<lparr>PostID_opt = None, metrics_opt = [(''a'', 9)]\<rparr>, OpDelete 5,
            OpAdd \<lparr>ID = 0, PostID = 8, metrics = []\<rparr>]
           (\<lparr>analytics = [\<lparr>ID = 1, PostID = 7, metrics = []\<rparr>],
            posts = [\<lparr>post_id = 7, category_title = ''news'', public = True\<rparr>,
             \<lparr>post_id = 8, category_title = ''news'', public = False\<rparr>],
            categories = [], next_id = 2\<rparr>))"
    using one_analytic_per_post
      [where ps = "[\<lparr>post_id = 7, category_title = ''news'', public = True\<rparr>,
             \<lparr>post_id = 8, category_title = ''news'', public = False\<rparr>]"
         and cs = "[]" and n = 1 and pre = "[]" and a = "\<lparr>ID = 0, PostID = 7, metrics = []\<rparr>"
         and r = "\<lparr>ID = 1, PostID = 7, metrics = []\<rparr>"
         and s' = "\<lparr>analytics = [\<lparr>ID = 1, PostID = 7, metrics = []\<rparr>],
            posts = [\<lparr>post_id = 7, category_title = ''news'', public = True\<rparr>,
             \<lparr>post_id = 8, category_title = ''news'', public = False\<rparr>],
            categories = [], next_id = 2\<rparr>"
         and ops' = "[OpUpdate 1 \<lparr>PostID_opt = None, metrics_opt = [(''a'', 9)]\<rparr>, OpDelete 5,
            OpAdd \<lparr>ID = 0, PostID = 8, metrics = []\<rparr>]"
         and b = "\<lparr>ID = 0, PostID = 7, metrics = [(''a'', 3)]\<rparr>",
       THEN conjunct2]
    by (simp add: srv_simps demo_simps run_def Let_def AList.merge_def)
  have w0: "AddAnalytic_spec \<lparr>ID = 0, PostID = 7, metrics = []\<rparr> (run [] (Store_init
            [\<lparr>post_id = 7, category_title = ''news'', public = True\<rparr>,
             \<lparr>post_id = 8, category_title = ''news'', public = False\<rparr>] [] 1))
      = (Inr \<lparr>ID = 1, PostID = 7, metrics = []\<rparr>,
         \<lparr>analytics = [\<lparr>ID = 1, PostID = 7, metrics = []\<rparr>],
            posts = [\<lparr>post_id = 7, category_title = ''news'', public = True\<rparr>,
             \<lparr>post_id = 8, category_title = ''news'', public = False\<rparr>],
            categories = [], next_id = 2\<rparr>)"
    by (simp add: srv_simps demo_simps run_def Let_def AList.merge_def)
  have w00: "list_all (\<lambda>op. \<not> releases 7 1 op)
         [OpUpdate 1 \<lparr>PostID_opt = None, metrics_opt = [(''a'', 9)]\<rparr>, OpDelete 5,
            OpAdd \<lparr>ID = 0, PostID = 8, metrics = []\<rparr>]"
    by simp
  from w0 w00 w1 w2 show ?thesis
    by (intro conjI)
qed

subsection \<open>The order of the checks in AddAnalytic\<close>

text \<open>
  When the Post is gone and the Analytic is still there, the duplicate check answers; the
  result is PostIDAlreadyExists and not AnalyticDependencyNotFound.
\<close>

theorem duplicate_wins_over_missing_post:
  "\<not> PostExists 7 (run [OpPosts []] demo_store)
   \<and> has_analytic 7 (run [OpPosts []] demo_store)
   \<and> AddAnalytic_spec \<lparr>ID = 0, PostID = 7, metrics = []\<rparr> (run [OpPosts []] demo_store)
      = (Inl (failure ErrPostIDExist), run [OpPosts []] demo_store)
   \<and> \<not> errors_Is (failure ErrPostIDExist) ErrAnalyticDependencyNotFound"
  by (simp add: srv_simps demo_simps run_def errors_Is_def)

text \<open>
  C2, as the service of the specification has it. An AddAnalytic whose PostID has an
  Analytic fails with PostIDAlreadyExists, whether or not the Post exists; an AddAnalytic
  whose PostID has no Analytic and no Post fails with AnalyticDependencyNotFound. The
  handler answers the first with 400 and the second with 409.
\<close>

theorem AddAnalytic_check_order:
  "(has_analytic (PostID a) s \<longrightarrow>
      AddAnalytic_spec a s = (Inl (failure ErrPostIDExist), s))
   \<and> (\<not> has_analytic (PostID a) s \<and> \<not> PostExists (PostID a) s \<longrightarrow>
      AddAnalytic_spec a s = (Inl (failure ErrAnalyticDependencyNotFound), s))
   \<and> (BindJSON c = Inr (Some a) \<and> has_analytic (PostID a) (db w) \<longrightarrow>
      fst (addAnalytic AddAnalytic_spec c w)
        = Response StatusBadRequest (errorResponse ''PostIDAlreadyExists''))
   \<and> (BindJSON c = Inr (Some a) \<and> \<not> has_analytic (PostID a) (db w)
        \<and> \<not> PostExists (PostID a) (db w)
      \<longrightarrow> fst (addAnalytic AddAnalytic_spec c w)
        = Response StatusConflict (errorResponse ''AnalyticDependencyNotFound''))"
  by (simp add: AddAnalytic_spec_def addAnalytic_def handler_simps failure_def errors_Is_def)

theorem AddAnalytic_check_order_witness:
  "has_analytic 7 (run [OpPosts []] demo_store)
   \<and> \<not> has_analytic 9 demo_store \<and> \<not> PostExists 9 demo_store
   \<and> AddAnalytic_spec \<lparr>ID = 0, PostID = 7, metrics = []\<rparr> (run [OpPosts []] demo_store)
      = (Inl (failure ErrPostIDExist), run [OpPosts []] demo_store)
   \<and> AddAnalytic_spec \<lparr>ID = 0, PostID = 9, metrics = []\<rparr> demo_store
      = (Inl (failure ErrAnalyticDependencyNotFound), demo_store)
   \<and> fst (addAnalytic AddAnalytic_spec (request [] Map.empty (Inr (Some \<lparr>ID = 0, PostID = 7, metrics = []\<rparr>)))
           (world_of demo_store))
      = Response StatusBadRequest (errorResponse ''PostIDAlreadyExists'')
   \<and> fst (addAnalytic AddAnalytic_spec (request [] Map.empty (Inr (Some \<lparr>ID = 0, PostID = 9, metrics = []\<rparr>)))
           (world_of demo_store))
      = Response StatusConflict (errorResponse ''AnalyticDependencyNotFound'')"
proof -
  have w1: "AddAnalytic_spec \<lparr>ID = 0, PostID = 7, metrics = []\<rparr> (run [OpPosts []] demo_store)
      = (Inl (failure ErrPostIDExist), run [OpPosts []] demo_store)"
    using AddAnalytic_check_order
      [where a = "\<lparr>ID = 0, PostID = 7, metrics = []\<rparr>" and s = "run [OpPosts []] demo_store",
       THEN conjunct1]
    by (simp add: has_analytic_def PostExists_def demo_simps run_def)
  have w2: "AddAnalytic_spec \<lparr>ID = 0, PostID = 9, metrics = []\<rparr> demo_store
      = (Inl (failure ErrAnalyticDependencyNotFound), demo_store)"
    using AddAnalytic_check_order
      [where a = "\<lparr>ID = 0, PostID = 9, metrics = []\<rparr>" and s = demo_store,
       THEN conjunct2, THEN conjunct1]
    by (simp add: has_analytic_def PostExists_def demo_simps run_def)
  have w3: "fst (addAnalytic AddAnalytic_spec (request [] Map.empty (Inr (Some \<lparr>ID = 0, PostID = 7, metrics = []\<rparr>)))
           (world_of demo_store))
      = Response StatusBadRequest (errorResponse ''PostIDAlreadyExists'')"
    using AddAnalytic_check_order
      [where a = "\<lparr>ID = 0, PostID = 7, metrics = []\<rparr>" and c = "request [] Map.empty (Inr (Some \<lparr>ID = 0, PostID = 7, metrics = []\<rparr>))"
         and w = "world_of demo_store",
       THEN conjunct2, THEN conjunct2, THEN conjunct1]
    by (simp add: has_analytic_def PostExists_def demo_simps run_def)
  have w4: "fst (addAnalytic AddAnalytic_spec (request [] Map.empty (Inr (Some \<lparr>ID = 0, PostID = 9, metrics = []\<rparr>)))
           (world_of demo_store))
      = Response StatusConflict (errorResponse ''AnalyticDependencyNotFound'')"
    using AddAnalytic_check_order
      [where a = "\<lparr>ID = 0, PostID = 9, metrics = []\<rparr>" and c = "request [] Map.empty (Inr (Some \<lparr>ID = 0, PostID = 9, metrics = []\<rparr>))"
         and w = "world_of demo_store",
       THEN conjunct2, THEN conjunct2, THEN conjunct2]
    by (simp add: has_analytic_def PostExists_def demo_simps run_def)
  have w0: "has_analytic 7 (run [OpPosts []] demo_store)"
    "\<not> has_analytic 9 demo_store" "\<not> PostExists 9 demo_store"
    by (simp_all add: has_analytic_def PostExists_def demo_simps run_def)
  from w0 w1 w2 w3 w4 show ?thesis
    by (intro conjI)
qed

subsection \<open>Merging a partial update\<close>

lemma map_of_merge_case:
  "map_of (AList.merge qs ps) k = (case map_of ps k of None \<Rightarrow> map_of qs k | Some v \<Rightarrow> Some v)"
  by (simp add: merge_conv' map_add_def)

lemma find_replace:
  "ID new = i \<Longrightarrow> find (\<lambda>a. ID a = i) xs = Some old \<Longrightarrow>
   find (\<lambda>a. ID a = i) (map (\<lambda>a. if ID a = i then new else a) xs) = Some new"
  by (induction xs) (auto split: if_splits)

text \<open>
  C4. When UpdateAnalytic succeeds, the record it returns and stores under the id has the
  id of the old record, the PostID of the update if the update sets one and the old PostID
  otherwise, and for every field name the value of the update if the update sets the field
  and the old value otherwise. The other records, the Posts and the Categories are as
  before. Merging a=9 into the record with a=1 and b=2 gives a=9 and b=2.
\<close>

theorem update_merges_fields:
  "UpdateAnalytic_spec i u s = (Inr new, s') \<longrightarrow>
     (\<exists>old. find (\<lambda>a. ID a = i) (analytics s) = Some old
        \<and> ID new = ID old
        \<and> PostID new = (case PostID_opt u of None \<Rightarrow> PostID old | Some p \<Rightarrow> p)
        \<and> (\<forall>k. map_of (metrics new) k =
              (case map_of (metrics_opt u) k of None \<Rightarrow> map_of (metrics old) k
               | Some v \<Rightarrow> Some v))
        \<and> find (\<lambda>a. ID a = i) (analytics s') = Some new
        \<and> (\<forall>x\<in>set (analytics s). ID x \<noteq> i \<longrightarrow> x \<in> set (analytics s'))
        \<and> posts s' = posts s \<and> categories s' = categories s)"
proof
  assume upd: "UpdateAnalytic_spec i u s = (Inr new, s')"
  then obtain old where old: "find (\<lambda>a. ID a = i) (analytics s) = Some old"
    by (auto simp: UpdateAnalytic_spec_def split: option.splits)
  with upd have new: "new = apply_update u old"
    and s': "s' = s\<lparr>analytics := map (\<lambda>a. if ID a = i then new else a) (analytics s)\<rparr>"
    by (auto simp: UpdateAnalytic_spec_def Let_def split: if_splits)
  from old have i: "ID old = i"
    by (auto simp: find_Some_iff)
  have "ID new = ID old"
    using new by simp
  moreover have "PostID new = (case PostID_opt u of None \<Rightarrow> PostID old | Some p \<Rightarrow> p)"
    using new by (simp add: apply_update_def)
  moreover have "\<forall>k. map_of (metrics new) k =
      (case map_of (metrics_opt u) k of None \<Rightarrow> map_of (metrics old) k | Some v \<Rightarrow> Some v)"
    using new by (simp add: apply_update_def map_of_merge_case)
  moreover have "find (\<lambda>a. ID a = i) (analytics s') = Some new"
    using old i new s' by (simp add: find_replace)
  moreover have "\<forall>x\<in>set (analytics s). ID x \<noteq> i \<longrightarrow> x \<in> set (analytics s')"
    using s' by (auto simp: image_iff)
  moreover have "posts s' = posts s \<and> categories s' = categories s"
    using s' by simp
  ultimately show "\<exists>old. find (\<lambda>a. ID a = i) (analytics s) = Some old
        \<and> ID new = ID old
        \<and> PostID new = (case PostID_opt u of None \<Rightarrow> PostID old | Some p \<Rightarrow> p)
        \<and> (\<forall>k. map_of (metrics new) k =
              (case map_of (metrics_opt u) k of None \<Rightarrow> map_of (metrics old) k
               | Some v \<Rightarrow> Some v))
        \<and> find (\<lambda>a. ID a = i) (analytics s') = Some new
        \<and> (\<forall>x\<in>set (analytics s). ID x \<noteq> i \<longrightarrow> x \<in> set (analytics s'))
        \<and> posts s' = posts s \<and> categories s' = categories s"
    using old by blast
qed

theorem update_merges_fields_witness:
  "UpdateAnalytic_spec 1 \<lparr>PostID_opt = None, metrics_opt = [(''a'', 9)]\<rparr> demo_store
     = (Inr \<lparr>ID = 1, PostID = 7, metrics = [(''a'', 9), (''b'', 2)]\<rparr>,
        demo_store\<lparr>analytics := [\<lparr>ID = 1, PostID = 7, metrics = [(''a'', 9), (''b'', 2)]\<rparr>,
                                 \<lparr>ID = 2, PostID = 8, metrics = []\<rparr>]\<rparr>)
   \<and> find (\<lambda>a. ID a = 1)
        (analytics (demo_store\<lparr>analytics :=
           [\<lparr>ID = 1, PostID = 7, metrics = [(''a'', 9), (''b'', 2)]\<rparr>,
            \<lparr>ID = 2, PostID = 8, metrics = []\<rparr>]\<rparr>))
      = Some \<lparr>ID = 1, PostID = 7, metrics = [(''a'', 9), (''b'', 2)]\<rparr>"
proof -
  have run: "UpdateAnalytic_spec 1 \<lparr>PostID_opt = None, metrics_opt = [(''a'', 9)]\<rparr> demo_store
     = (Inr \<lparr>ID = 1, PostID = 7, metrics = [(''a'', 9), (''b'', 2)]\<rparr>,
        demo_store\<lparr>analytics := [\<lparr>ID = 1, PostID = 7, metrics = [(''a'', 9), (''b'', 2)]\<rparr>,
                                 \<lparr>ID = 2, PostID = 8, metrics = []\<rparr>]\<rparr>)"
    by (simp add: srv_simps demo_simps Let_def AList.merge_def)
  from update_merges_fields [rule_format, OF run] run show ?thesis
    by blast
qed

subsection \<open>Listing an empty collection\<close>

text \<open>
  C9. With no Category in the store, GetAllCategories fails with CategoryNotFound and the
  handler answers 404; a 200 answer of getAllCategories never carries an empty list. With no
  public Post in the store, GetCategoriesWithPublicPosts fails with PostNotFound and the
  handler answers 404.
\<close>

theorem empty_listing_is_not_found:
  "(categories (db w) = [] \<longrightarrow>
      GetAllCategories_spec (db w) = (Inl (failure ErrCategoryNotFound), db w)
      \<and> fst (getAllCategories GetAllCategories_spec c w)
          = Response StatusNotFound (errorResponse ''CategoryNotFound''))
   \<and> (fst (getAllCategories GetAllCategories_spec c w) = Response StatusOK (JSON xs) \<longrightarrow>
        xs \<noteq> [])
   \<and> (filter public (posts (db w)) = [] \<longrightarrow>
      GetCategoriesWithPublicPosts_spec (db w) = (Inl (failure ErrPostNotFound), db w)
      \<and> fst (getCategoriesWithPublicPosts GetCategoriesWithPublicPosts_spec c w)
          = Response StatusNotFound (errorResponse ''PostNotFound''))"
  by (auto simp: GetAllCategories_spec_def GetCategoriesWithPublicPosts_spec_def
      getAllCategories_def getCategoriesWithPublicPosts_def handler_simps failure_def
      errors_Is_def split: if_splits)

theorem empty_listing_is_not_found_witness:
  "fst (getAllCategories GetAllCategories_spec (category_request (Inr ''news'') (Inr ''sport''))
           (world_of empty_store))
      = Response StatusNotFound (errorResponse ''CategoryNotFound'')
   \<and> fst (getAllCategories GetAllCategories_spec (category_request (Inr ''news'') (Inr ''sport''))
           (world_of demo_store))
      = Response StatusOK (JSON [\<lparr>Title = ''news''\<rparr>])
   \<and> fst (getCategoriesWithPublicPosts GetCategoriesWithPublicPosts_spec
           (category_request (Inr ''news'') (Inr ''sport''))
           (world_of (demo_store\<lparr>posts := [\<lparr>post_id = 8, category_title = ''news'', public = False\<rparr>]\<rparr>)))
      = Response StatusNotFound (errorResponse ''PostNotFound'')"
proof -
  have w1: "fst (getAllCategories GetAllCategories_spec (category_request (Inr ''news'') (Inr ''sport''))
           (world_of empty_store))
      = Response StatusNotFound (errorResponse ''CategoryNotFound'')"
    using empty_listing_is_not_found
      [where w = "world_of empty_store" and c = "category_request (Inr ''news'') (Inr ''sport'')",
       THEN conjunct1]
    by (simp add: demo_simps)
  have w2: "fst (getAllCategories GetAllCategories_spec (category_request (Inr ''news'') (Inr ''sport''))
           (world_of demo_store))
      = Response StatusOK (JSON [\<lparr>Title = ''news''\<rparr>])"
    by (simp add: getAllCategories_def handler_simps GetAllCategories_spec_def demo_simps)
  have w2': "[\<lparr>Title = ''news''\<rparr>] \<noteq> []"
    using empty_listing_is_not_found
      [where w = "world_of demo_store" and c = "category_request (Inr ''news'') (Inr ''sport'')"
         and xs = "[\<lparr>Title = ''news''\<rparr>]",
       THEN conjunct2, THEN conjunct1] w2
    by blast
  have w3: "fst (getCategoriesWithPublicPosts GetCategoriesWithPublicPosts_spec
           (category_request (Inr ''news'') (Inr ''sport''))
           (world_of (demo_store\<lparr>posts := [\<lparr>post_id = 8, category_title = ''news'', public = False\<rparr>]\<rparr>)))
      = Response StatusNotFound (errorResponse ''PostNotFound'')"
    using empty_listing_is_not_found
      [where w = "world_of (demo_store\<lparr>posts := [\<lparr>post_id = 8, category_title = ''news'', public = False\<rparr>]\<rparr>)"
         and c = "category_request (Inr ''news'') (Inr ''sport'')",
       THEN conjunct2, THEN conjunct2]
    by (simp add: demo_simps)
  from w1 w2 w2' w3 show ?thesis
    by simp
qed

end
